theory Spec2Isabelle
  imports Main "HOL-Library.Word"
begin

section \<open>Greybus connections: data model\<close>

text \<open>
  The embedding follows the connection code function by function.  Pointers to
  connections, interfaces and bundles are addresses (natural numbers), a NULL pointer is
  \<open>None\<close>.  The memory holding the connection objects is a total function from
  addresses to records; the host device is a single one, so \<open>connection->hd\<close> and
  \<open>intf->hd\<close> are the one world the functions take and return.

  Everything the code does to its collaborators (locks, the host driver, the SVC, the
  control protocol, the operation layer, the allocator, the log) is appended, in program
  order, to the \<open>trace\<close> of the world.  So is every write that enable, disable
  and disable_rx make to the state and to the handler of a connection, so that the trace
  tells where these writes stand among the calls and inside the spinlock.
\<close>

type_synonym u8 = "8 word"
type_synonym u16 = "16 word"
type_synonym conn_ptr = nat
type_synonym intf_ptr = nat
type_synonym bundle_ptr = nat
type_synonym gb_request_handler_t = nat

datatype gb_connection_state =
    GB_CONNECTION_STATE_DISABLED
  | GB_CONNECTION_STATE_ENABLED_TX
  | GB_CONNECTION_STATE_ENABLED

text \<open>
  An operation of the operation layer, as far as this code reads it: its identity and
  the incoming/outgoing tag.
\<close>

datatype gb_operation = Operation (op_id: nat) (op_incoming: bool)

datatype lock_id =
    Gb_connection_mutex
  | Gb_connections_lock
  | Connection_mutex conn_ptr
  | Connection_lock conn_ptr

datatype event =
    Lock lock_id
  | Unlock lock_id
  | Dev_err string
  | Dev_warn string
  | Cport_enable u16
  | Cport_disable u16
  | Svc_connection_create u8 u16 u8 u16 bool
  | Svc_connection_destroy u8 u16 u8 u16
  | Control_connected intf_ptr u16
  | Control_disconnected intf_ptr u16
  | Operation_get gb_operation
  | Operation_put gb_operation
  | Operation_cancel gb_operation int
  | Operation_cancel_incoming gb_operation int
  | Connection_recv conn_ptr "u8 list"
  | Kref_get conn_ptr
  | Kref_put conn_ptr
  | Kzalloc conn_ptr
  | Kfree conn_ptr
  | Ida_simple_get int
  | Ida_simple_remove int
  | Alloc_workqueue nat
  | Destroy_workqueue "nat option"
  | Set_state conn_ptr gb_connection_state
  | Set_handler conn_ptr "nat option"

record gb_control =
  connection :: "conn_ptr option"

record gb_interface =
  interface_id :: u8
  boot_over_unipro :: bool
  control :: gb_control

record gb_connection =
  hd_cport_id :: u16
  intf_cport_id :: u16
  intf :: "intf_ptr option"
  conn_bundle :: "bundle_ptr option"
  state :: gb_connection_state
  handler :: "gb_request_handler_t option"
  operations :: "gb_operation list"
  wq :: "nat option"
  kref :: int
  name :: "nat \<times> nat \<times> nat"

text \<open>
  The host device with the memory it points into.  \<open>connections\<close> is the list
  \<open>hd->connections\<close> from its head, \<open>bundle_connections b\<close> the list
  \<open>bundle->connections\<close> of bundle \<open>b\<close>, \<open>cport_id_map\<close> the identifiers
  the allocator has handed out.
\<close>

record gb_world =
  conns :: "conn_ptr \<Rightarrow> gb_connection"
  intfs :: "intf_ptr \<Rightarrow> gb_interface"
  connections :: "conn_ptr list"
  bundle_connections :: "bundle_ptr \<Rightarrow> conn_ptr list"
  cport_id_map :: "int list"
  num_cports :: int
  ap_intf_id :: u8
  trace :: "event list"

text \<open>
  What the collaborators answer: the host driver's callback table (a missing callback is
  \<open>None\<close> or \<open>False\<close>), the return values of the SVC and control requests, the
  results of the two allocations of \<open>gb_connection_create\<close>, and the sentinel
  \<open>CPORT_ID_BAD\<close> of \<open>greybus.h\<close>.
\<close>

record gb_env =
  cport_enable :: "(u16 \<Rightarrow> int) option"
  cport_disable :: bool
  gb_svc_connection_create :: "u8 \<Rightarrow> u16 \<Rightarrow> u8 \<Rightarrow> u16 \<Rightarrow> bool \<Rightarrow> int"
  gb_control_connected_operation :: "intf_ptr \<Rightarrow> u16 \<Rightarrow> int"
  gb_control_disconnected_operation :: "intf_ptr \<Rightarrow> u16 \<Rightarrow> int"
  kzalloc :: "conn_ptr option"
  alloc_workqueue :: "nat option"
  CPORT_ID_BAD :: u16

definition ESHUTDOWN :: int where
  "ESHUTDOWN = 108"

definition ENOSPC :: int where
  "ENOSPC = 28"

definition emit :: "event list \<Rightarrow> gb_world \<Rightarrow> gb_world" where
  "emit es w = w\<lparr>trace := trace w @ es\<rparr>"

definition conn_update ::
  "conn_ptr \<Rightarrow> (gb_connection \<Rightarrow> gb_connection) \<Rightarrow> gb_world \<Rightarrow> gb_world" where
  "conn_update c f w = w\<lparr>conns := (conns w)(c := f (conns w c))\<rparr>"

text \<open>
  The assignments \<open>connection->state = s\<close> and \<open>connection->handler = h\<close>
  of the state machine: the field is written and the write is put on the trace.
\<close>

definition set_state :: "conn_ptr \<Rightarrow> gb_connection_state \<Rightarrow> gb_world \<Rightarrow> gb_world" where
  "set_state c s w = emit [Set_state c s] (conn_update c (\<lambda>x. x\<lparr>state := s\<rparr>) w)"

definition set_handler ::
  "conn_ptr \<Rightarrow> gb_request_handler_t option \<Rightarrow> gb_world \<Rightarrow> gb_world" where
  "set_handler c h w = emit [Set_handler c h] (conn_update c (\<lambda>x. x\<lparr>handler := h\<rparr>) w)"

section \<open>Collaborators that are not part of the connection code\<close>

text \<open>
  Modelled from the spec: \<open>gb_connection_is_static\<close>, an inline helper of
  \<open>greybus.h\<close>.  A static connection is one with no remote interface.
\<close>

definition gb_connection_is_static :: "conn_ptr \<Rightarrow> gb_world \<Rightarrow> bool" where
  "gb_connection_is_static c w = (intf (conns w c) = None)"

text \<open>
  Modelled from the spec: \<open>gb_operation_is_incoming\<close>, \<open>gb_operation_cancel\<close> and
  \<open>gb_operation_cancel_incoming\<close> of the operation layer.  Each operation carries an
  incoming/outgoing tag.  The operation layer owns the removal of an operation from the
  connection's list: here a cancelled operation is off the list when the cancel call
  returns, and no other entry of the list is touched.  Both loops below end because of
  this.
\<close>

definition gb_operation_is_incoming :: "gb_operation \<Rightarrow> bool" where
  "gb_operation_is_incoming operation = op_incoming operation"

definition gb_operation_cancel ::
  "conn_ptr \<Rightarrow> gb_operation \<Rightarrow> int \<Rightarrow> gb_world \<Rightarrow> gb_world" where
  "gb_operation_cancel c operation errno w =
     conn_update c (\<lambda>x. x\<lparr>operations := remove1 operation (operations x)\<rparr>)
       (emit [Operation_cancel operation errno] w)"

definition gb_operation_cancel_incoming ::
  "conn_ptr \<Rightarrow> gb_operation \<Rightarrow> int \<Rightarrow> gb_world \<Rightarrow> gb_world" where
  "gb_operation_cancel_incoming c operation errno w =
     conn_update c (\<lambda>x. x\<lparr>operations := remove1 operation (operations x)\<rparr>)
       (emit [Operation_cancel_incoming operation errno] w)"

text \<open>
  Modelled from the spec: \<open>gb_connection_recv\<close>, the receive entry point of the
  operation layer, which is handed the connection and the payload.
\<close>

definition gb_connection_recv :: "conn_ptr \<Rightarrow> u8 list \<Rightarrow> gb_world \<Rightarrow> gb_world" where
  "gb_connection_recv c data w = emit [Connection_recv c data] w"

text \<open>
  Modelled from the spec: the identifier allocator (the kernel's \<open>ida\<close>):
  \<open>reserve(range_start, range_end) -> id | Exhausted\<close> hands out the smallest free
  identifier of the half-open range, \<open>release(id)\<close> gives it back.
\<close>

definition ida_simple_get :: "int \<Rightarrow> int \<Rightarrow> gb_world \<Rightarrow> int \<times> gb_world" where
  "ida_simple_get ida_start ida_end w =
     (case find (\<lambda>i. i \<notin> set (cport_id_map w)) [ida_start .. ida_end - 1] of
        None \<Rightarrow> (- ENOSPC, w)
      | Some i \<Rightarrow> (i, emit [Ida_simple_get i] (w\<lparr>cport_id_map := i # cport_id_map w\<rparr>)))"

definition ida_simple_remove :: "int \<Rightarrow> gb_world \<Rightarrow> gb_world" where
  "ida_simple_remove i w =
     emit [Ida_simple_remove i] (w\<lparr>cport_id_map := removeAll i (cport_id_map w)\<rparr>)"

section \<open>Registry lookups and reference counting\<close>

definition gb_connection_intf_find ::
  "intf_ptr \<Rightarrow> u16 \<Rightarrow> gb_world \<Rightarrow> conn_ptr option" where
  "gb_connection_intf_find i cport_id w =
     find (\<lambda>c. intf (conns w c) = Some i \<and> intf_cport_id (conns w c) = cport_id)
       (connections w)"

definition gb_connection_get :: "conn_ptr \<Rightarrow> gb_world \<Rightarrow> gb_world" where
  "gb_connection_get c w =
     conn_update c (\<lambda>x. x\<lparr>kref := kref x + 1\<rparr>) (emit [Kref_get c] w)"

definition gb_connection_kref_release :: "conn_ptr \<Rightarrow> gb_world \<Rightarrow> gb_world" where
  "gb_connection_kref_release c w = emit [Kfree c] w"

definition gb_connection_put :: "conn_ptr \<Rightarrow> gb_world \<Rightarrow> gb_world" where
  "gb_connection_put c w =
     (let w1 = conn_update c (\<lambda>x. x\<lparr>kref := kref x - 1\<rparr>) (emit [Kref_put c] w)
      in if kref (conns w1 c) = 0 then gb_connection_kref_release c w1 else w1)"

definition gb_connection_hd_find ::
  "u16 \<Rightarrow> gb_world \<Rightarrow> conn_ptr option \<times> gb_world" where
  "gb_connection_hd_find cport_id w0 =
     (let w = emit [Lock Gb_connections_lock] w0
      in case find (\<lambda>c. hd_cport_id (conns w c) = cport_id) (connections w) of
           Some c \<Rightarrow> (Some c, emit [Unlock Gb_connections_lock] (gb_connection_get c w))
         | None \<Rightarrow> (None, emit [Unlock Gb_connections_lock] w))"

definition greybus_data_rcvd :: "u16 \<Rightarrow> u8 list \<Rightarrow> gb_world \<Rightarrow> gb_world" where
  "greybus_data_rcvd cport_id data w =
     (case gb_connection_hd_find cport_id w of
        (None, w1) \<Rightarrow> emit [Dev_err ''nonexistent connection''] w1
      | (Some c, w1) \<Rightarrow> gb_connection_put c (gb_connection_recv c data w1))"

section \<open>Creation and destruction\<close>

text \<open>
  The label is kept as the three numbers that the format \<open>%u/%u:%u\<close> prints.
\<close>

definition gb_connection_init_name :: "conn_ptr \<Rightarrow> gb_world \<Rightarrow> gb_world" where
  "gb_connection_init_name c w =
     (let x = conns w c;
          ids = (case intf x of
                   Some i \<Rightarrow> (unat (interface_id (intfs w i)), unat (intf_cport_id x))
                 | None \<Rightarrow> (0, 0))
      in conn_update c (\<lambda>x. x\<lparr>name := (unat (hd_cport_id x), ids)\<rparr>) w)"

definition zeroed_connection :: gb_connection where
  "zeroed_connection =
     \<lparr>hd_cport_id = 0, intf_cport_id = 0, intf = None, conn_bundle = None,
      state = GB_CONNECTION_STATE_DISABLED, handler = None, operations = [],
      wq = None, kref = 0, name = (0, 0, 0)\<rparr>"

text \<open>
  The parameter \<open>hd_cport_id\<close> of the source is \<open>hd_cport\<close> here (the
  other name is the field's), \<open>intf\<close> is \<open>i\<close> and \<open>bundle\<close> is
  \<open>b\<close>.  The \<open>int\<close> remote identifier is narrowed to 16 bits where the
  source passes or stores it as \<open>u16\<close>.  The first test chooses the identifier
  range; the rest runs under \<open>gb_connection_mutex\<close>.
\<close>

definition gb_connection_create ::
  "gb_env \<Rightarrow> int \<Rightarrow> intf_ptr option \<Rightarrow> bundle_ptr option \<Rightarrow> int \<Rightarrow> gb_world
     \<Rightarrow> conn_ptr option \<times> gb_world" where
  "gb_connection_create env hd_cport i b cport_id w0 =
     (case (if hd_cport < 0 then Some (0, num_cports w0)
            else if hd_cport < num_cports w0 then Some (hd_cport, hd_cport + 1)
            else None) of
        None \<Rightarrow> (None, emit [Dev_err ''cport not available''] w0)
      | Some (ida_start, ida_end) \<Rightarrow>
     (let w = emit [Lock Gb_connection_mutex] w0
      in if (case i of None \<Rightarrow> False
             | Some ip \<Rightarrow> gb_connection_intf_find ip (word_of_int cport_id) w \<noteq> None)
         then (None, emit [Dev_err ''cport already in use'', Unlock Gb_connection_mutex] w)
         else
           (case ida_simple_get ida_start ida_end w of (new_id, w1) \<Rightarrow>
              if new_id < 0 then (None, emit [Unlock Gb_connection_mutex] w1)
              else
                (case kzalloc env of
                   None \<Rightarrow>
                     (None, emit [Unlock Gb_connection_mutex] (ida_simple_remove new_id w1))
                 | Some c \<Rightarrow>
                     (let w2 = conn_update c
                                 (\<lambda>_. zeroed_connection
                                    \<lparr>hd_cport_id := word_of_int new_id,
                                     intf_cport_id := word_of_int cport_id,
                                     intf := i, conn_bundle := b,
                                     state := GB_CONNECTION_STATE_DISABLED,
                                     operations := []\<rparr>)
                                 (emit [Kzalloc c] w1)
                      in case alloc_workqueue env of
                           None \<Rightarrow>
                             (None, emit [Unlock Gb_connection_mutex]
                                      (ida_simple_remove new_id (emit [Kfree c] w2)))
                         | Some q \<Rightarrow>
                             (let w3 = conn_update c (\<lambda>x. x\<lparr>wq := Some q, kref := 1\<rparr>)
                                         (emit [Alloc_workqueue q] w2);
                                  w4 = gb_connection_init_name c w3;
                                  w5 = emit [Lock Gb_connections_lock] w4;
                                  w6 = w5\<lparr>connections := c # connections w5\<rparr>;
                                  w7 = (case b of
                                          Some bp \<Rightarrow>
                                            w6\<lparr>bundle_connections :=
                                                 (bundle_connections w6)
                                                   (bp := c # bundle_connections w6 bp)\<rparr>
                                        | None \<Rightarrow> w6)
                              in (Some c,
                                  emit [Unlock Gb_connections_lock,
                                        Unlock Gb_connection_mutex] w7)))))))"

definition gb_connection_create_static ::
  "gb_env \<Rightarrow> u16 \<Rightarrow> gb_world \<Rightarrow> conn_ptr option \<times> gb_world" where
  "gb_connection_create_static env hd_cport w =
     gb_connection_create env (uint hd_cport) None None 0 w"

definition gb_connection_create_control ::
  "gb_env \<Rightarrow> intf_ptr \<Rightarrow> gb_world \<Rightarrow> conn_ptr option \<times> gb_world" where
  "gb_connection_create_control env i w =
     gb_connection_create env (- 1) (Some i) None 0 w"

text \<open>
  \<open>bundle->intf\<close> is passed by the caller, as the bundle objects are not part of
  the world.
\<close>

definition gb_connection_create_dynamic ::
  "gb_env \<Rightarrow> intf_ptr \<Rightarrow> bundle_ptr \<Rightarrow> u16 \<Rightarrow> gb_world \<Rightarrow> conn_ptr option \<times> gb_world" where
  "gb_connection_create_dynamic env bundle_intf b cport_id w =
     gb_connection_create env (- 1) (Some bundle_intf) (Some b) (uint cport_id) w"

definition gb_connection_destroy ::
  "gb_env \<Rightarrow> conn_ptr option \<Rightarrow> gb_world \<Rightarrow> gb_world" where
  "gb_connection_destroy env cp w0 =
     (case cp of
        None \<Rightarrow> w0
      | Some c \<Rightarrow>
          (let w = emit [Lock Gb_connection_mutex, Lock Gb_connections_lock] w0;
               w1 = (case conn_bundle (conns w c) of
                       Some bp \<Rightarrow>
                         w\<lparr>bundle_connections :=
                             (bundle_connections w)
                               (bp := removeAll c (bundle_connections w bp))\<rparr>
                     | None \<Rightarrow> w);
               w2 = w1\<lparr>connections := removeAll c (connections w1)\<rparr>;
               w3 = emit [Unlock Gb_connections_lock,
                          Destroy_workqueue (wq (conns w2 c))] w2;
               w4 = ida_simple_remove (uint (hd_cport_id (conns w3 c))) w3;
               w5 = conn_update c (\<lambda>x. x\<lparr>hd_cport_id := CPORT_ID_BAD env\<rparr>) w4;
               w6 = emit [Unlock Gb_connection_mutex] w5
           in gb_connection_put c w6))"

section \<open>The three layers a connection is brought up on\<close>

text \<open>
  A static connection has no interface, so \<open>connection->intf\<close> is read only
  after the test \<open>gb_connection_is_static\<close> has failed, where it is not NULL.
\<close>

definition gb_connection_hd_cport_enable ::
  "gb_env \<Rightarrow> conn_ptr \<Rightarrow> gb_world \<Rightarrow> int \<times> gb_world" where
  "gb_connection_hd_cport_enable env c w =
     (case cport_enable env of
        None \<Rightarrow> (0, w)
      | Some f \<Rightarrow>
          (let ret = f (hd_cport_id (conns w c));
               w1 = emit [Cport_enable (hd_cport_id (conns w c))] w
           in if ret \<noteq> 0 then (ret, emit [Dev_err ''failed to enable host cport''] w1)
              else (0, w1)))"

definition gb_connection_hd_cport_disable ::
  "gb_env \<Rightarrow> conn_ptr \<Rightarrow> gb_world \<Rightarrow> gb_world" where
  "gb_connection_hd_cport_disable env c w =
     (if \<not> cport_disable env then w
      else emit [Cport_disable (hd_cport_id (conns w c))] w)"

definition gb_connection_svc_connection_create ::
  "gb_env \<Rightarrow> conn_ptr \<Rightarrow> gb_world \<Rightarrow> int \<times> gb_world" where
  "gb_connection_svc_connection_create env c w =
     (if gb_connection_is_static c w then (0, w)
      else
          (let x = conns w c;
               i = the (intf x);
               ret = gb_svc_connection_create env (ap_intf_id w) (hd_cport_id x)
                       (interface_id (intfs w i)) (intf_cport_id x)
                       (boot_over_unipro (intfs w i));
               w1 = emit [Svc_connection_create (ap_intf_id w) (hd_cport_id x)
                            (interface_id (intfs w i)) (intf_cport_id x)
                            (boot_over_unipro (intfs w i))] w
           in if ret \<noteq> 0
              then (ret, emit [Dev_err ''failed to create svc connection''] w1)
              else (0, w1)))"

definition gb_connection_svc_connection_destroy ::
  "conn_ptr \<Rightarrow> gb_world \<Rightarrow> gb_world" where
  "gb_connection_svc_connection_destroy c w =
     (if gb_connection_is_static c w then w
      else
        emit [Svc_connection_destroy (ap_intf_id w) (hd_cport_id (conns w c))
                (interface_id (intfs w (the (intf (conns w c)))))
                (intf_cport_id (conns w c))] w)"

definition gb_connection_control_connected ::
  "gb_env \<Rightarrow> conn_ptr \<Rightarrow> gb_world \<Rightarrow> int \<times> gb_world" where
  "gb_connection_control_connected env c w =
     (if gb_connection_is_static c w then (0, w)
      else
        (let i = the (intf (conns w c))
         in
          if Some c = connection (control (intfs w i)) then (0, w)
          else
            (let cport_id = intf_cport_id (conns w c);
                 ret = gb_control_connected_operation env i cport_id;
                 w1 = emit [Control_connected i cport_id] w
             in if ret \<noteq> 0 then (ret, emit [Dev_err ''failed to connect cport''] w1)
                else (0, w1))))"

definition gb_connection_control_disconnected ::
  "gb_env \<Rightarrow> conn_ptr \<Rightarrow> gb_world \<Rightarrow> gb_world" where
  "gb_connection_control_disconnected env c w =
     (if gb_connection_is_static c w then w
      else
        (let i = the (intf (conns w c))
         in
          if Some c = connection (control (intfs w i)) then w
          else
            (let cport_id = intf_cport_id (conns w c);
                 ret = gb_control_disconnected_operation env i cport_id;
                 w1 = emit [Control_disconnected i cport_id] w
             in if ret \<noteq> 0 then emit [Dev_warn ''failed to disconnect cport''] w1
                else w1)))"

section \<open>Cancelling the pending operations\<close>

text \<open>
  Both loops are entered with the connection's spinlock held, give it up around the
  call into the operation layer and take it again before the next test.
\<close>

function gb_connection_cancel_operations ::
  "conn_ptr \<Rightarrow> int \<Rightarrow> gb_world \<Rightarrow> gb_world" where
  "gb_connection_cancel_operations c errno w =
     (if operations (conns w c) = [] then w
      else
        (let operation = last (operations (conns w c));
             w1 = emit [Operation_get operation, Unlock (Connection_lock c)] w;
             w2 = (if gb_operation_is_incoming operation
                   then gb_operation_cancel_incoming c operation errno w1
                   else gb_operation_cancel c operation errno w1);
             w3 = emit [Operation_put operation, Lock (Connection_lock c)] w2
         in gb_connection_cancel_operations c errno w3))"
  by pat_completeness auto
termination
proof (relation "measure (\<lambda>(c, errno, w). length (operations (conns w c)))")
  show "wf (measure (\<lambda>(c, errno, w). length (operations (conns w c))))"
    by simp
next
  fix c :: conn_ptr and errno :: int and w :: gb_world
    and operation w1 w2 w3
  assume ne: "operations (conns w c) \<noteq> []"
    and op: "operation = last (operations (conns w c))"
    and w1: "w1 = emit [Operation_get operation, Unlock (Connection_lock c)] w"
    and w2: "w2 = (if gb_operation_is_incoming operation
                   then gb_operation_cancel_incoming c operation errno w1
                   else gb_operation_cancel c operation errno w1)"
    and w3: "w3 = emit [Operation_put operation, Lock (Connection_lock c)] w2"
  have "operations (conns w3 c) = remove1 operation (operations (conns w c))"
    by (simp add: w1 w2 w3 emit_def conn_update_def gb_operation_cancel_def
        gb_operation_cancel_incoming_def)
  moreover have "operation \<in> set (operations (conns w c))"
    using ne op by simp
  ultimately have "length (operations (conns w3 c)) < length (operations (conns w c))"
    using ne by (simp add: length_remove1)
  then show "((c, errno, w3), (c, errno, w))
      \<in> measure (\<lambda>(c, errno, w). length (operations (conns w c)))"
    by simp
qed

function gb_connection_flush_incoming_operations ::
  "conn_ptr \<Rightarrow> int \<Rightarrow> gb_world \<Rightarrow> gb_world" where
  "gb_connection_flush_incoming_operations c errno w =
     (if operations (conns w c) = [] then w
      else
        (case find gb_operation_is_incoming (operations (conns w c)) of
           None \<Rightarrow> w
         | Some operation \<Rightarrow>
             (let w1 = emit [Operation_get operation, Unlock (Connection_lock c)] w;
                  w2 = gb_operation_cancel_incoming c operation errno w1;
                  w3 = emit [Operation_put operation, Lock (Connection_lock c)] w2
              in gb_connection_flush_incoming_operations c errno w3)))"
  by pat_completeness auto
termination
proof (relation "measure (\<lambda>(c, errno, w). length (operations (conns w c)))")
  show "wf (measure (\<lambda>(c, errno, w). length (operations (conns w c))))"
    by simp
next
  fix c :: conn_ptr and errno :: int and w :: gb_world
    and operation w1 w2 w3
  assume ne: "operations (conns w c) \<noteq> []"
    and op: "find gb_operation_is_incoming (operations (conns w c)) = Some operation"
    and w1: "w1 = emit [Operation_get operation, Unlock (Connection_lock c)] w"
    and w2: "w2 = gb_operation_cancel_incoming c operation errno w1"
    and w3: "w3 = emit [Operation_put operation, Lock (Connection_lock c)] w2"
  have "operations (conns w3 c) = remove1 operation (operations (conns w c))"
    by (simp add: w1 w2 w3 emit_def conn_update_def gb_operation_cancel_incoming_def)
  moreover have "operation \<in> set (operations (conns w c))"
    using op by (auto simp: find_Some_iff)
  ultimately have "length (operations (conns w3 c)) < length (operations (conns w c))"
    using ne by (simp add: length_remove1)
  then show "((c, errno, w3), (c, errno, w))
      \<in> measure (\<lambda>(c, errno, w). length (operations (conns w c)))"
    by simp
qed

section \<open>Enable, disable, disable_rx\<close>

definition gb_connection_enable ::
  "gb_env \<Rightarrow> conn_ptr \<Rightarrow> gb_request_handler_t option \<Rightarrow> gb_world \<Rightarrow> int \<times> gb_world" where
  "gb_connection_enable env c h w0 =
     (let w = emit [Lock (Connection_mutex c)] w0
      in if state (conns w c) = GB_CONNECTION_STATE_ENABLED
         then (0, emit [Unlock (Connection_mutex c)] w)
         else if state (conns w c) = GB_CONNECTION_STATE_ENABLED_TX
         then
           (if h = None then (0, emit [Unlock (Connection_mutex c)] w)
            else
              (0, emit [Unlock (Connection_lock c), Unlock (Connection_mutex c)]
                    (set_state c GB_CONNECTION_STATE_ENABLED
                       (set_handler c h (emit [Lock (Connection_lock c)] w)))))
         else
           (case gb_connection_hd_cport_enable env c w of (ret, w1) \<Rightarrow>
              if ret \<noteq> 0 then (ret, emit [Unlock (Connection_mutex c)] w1)
              else
                (case gb_connection_svc_connection_create env c w1 of (ret, w2) \<Rightarrow>
                   if ret \<noteq> 0
                   then (ret, emit [Unlock (Connection_mutex c)]
                                (gb_connection_hd_cport_disable env c w2))
                   else
                     (let w3 = emit [Unlock (Connection_lock c)]
                                 (set_state c
                                    (if h \<noteq> None then GB_CONNECTION_STATE_ENABLED
                                     else GB_CONNECTION_STATE_ENABLED_TX)
                                    (set_handler c h
                                       (emit [Lock (Connection_lock c)] w2)))
                      in case gb_connection_control_connected env c w3 of (ret, w4) \<Rightarrow>
                           if ret \<noteq> 0
                           then
                             (let w5 = set_state c GB_CONNECTION_STATE_DISABLED
                                         (emit [Lock (Connection_lock c)] w4);
                                  w6 = gb_connection_cancel_operations c (- ESHUTDOWN) w5;
                                  w7 = emit [Unlock (Connection_lock c)]
                                         (set_handler c None w6);
                                  w8 = gb_connection_svc_connection_destroy c w7;
                                  w9 = gb_connection_hd_cport_disable env c w8
                              in (ret, emit [Unlock (Connection_mutex c)] w9))
                           else (0, emit [Unlock (Connection_mutex c)] w4)))))"

definition gb_connection_disable_rx :: "conn_ptr \<Rightarrow> gb_world \<Rightarrow> gb_world" where
  "gb_connection_disable_rx c w0 =
     (let w = emit [Lock (Connection_mutex c), Lock (Connection_lock c)] w0
      in if state (conns w c) \<noteq> GB_CONNECTION_STATE_ENABLED
         then emit [Unlock (Connection_lock c), Unlock (Connection_mutex c)] w
         else
           (let w1 = set_state c GB_CONNECTION_STATE_ENABLED_TX w;
                w2 = gb_connection_flush_incoming_operations c (- ESHUTDOWN) w1;
                w3 = set_handler c None w2
            in emit [Unlock (Connection_lock c), Unlock (Connection_mutex c)] w3))"

definition gb_connection_disable :: "gb_env \<Rightarrow> conn_ptr \<Rightarrow> gb_world \<Rightarrow> gb_world" where
  "gb_connection_disable env c w0 =
     (let w = emit [Lock (Connection_mutex c)] w0
      in if state (conns w c) = GB_CONNECTION_STATE_DISABLED
         then emit [Unlock (Connection_mutex c)] w
         else
           (let w1 = gb_connection_control_disconnected env c w;
                w2 = set_state c GB_CONNECTION_STATE_DISABLED
                       (emit [Lock (Connection_lock c)] w1);
                w3 = gb_connection_cancel_operations c (- ESHUTDOWN) w2;
                w4 = emit [Unlock (Connection_lock c)] (set_handler c None w3);
                w5 = gb_connection_svc_connection_destroy c w4;
                w6 = gb_connection_hd_cport_disable env c w5
            in emit [Unlock (Connection_mutex c)] w6))"

section \<open>Reading the trace\<close>

text \<open>
  The events of one round of each loop, and the events of the whole full-cancel loop as
  a function of the list it starts from: it takes the last entry as long as there is one.
\<close>

definition cancel_step :: "conn_ptr \<Rightarrow> int \<Rightarrow> gb_operation \<Rightarrow> event list" where
  "cancel_step c errno operation =
     [Operation_get operation, Unlock (Connection_lock c),
      (if gb_operation_is_incoming operation
       then Operation_cancel_incoming operation errno
       else Operation_cancel operation errno),
      Operation_put operation, Lock (Connection_lock c)]"

definition flush_step :: "conn_ptr \<Rightarrow> int \<Rightarrow> gb_operation \<Rightarrow> event list" where
  "flush_step c errno operation =
     [Operation_get operation, Unlock (Connection_lock c),
      Operation_cancel_incoming operation errno,
      Operation_put operation, Lock (Connection_lock c)]"

function cancel_trace :: "conn_ptr \<Rightarrow> int \<Rightarrow> gb_operation list \<Rightarrow> event list" where
  "cancel_trace c errno ops =
     (if ops = [] then []
      else cancel_step c errno (last ops) @ cancel_trace c errno (remove1 (last ops) ops))"
  by pat_completeness auto
termination
  by (relation "measure (\<lambda>(c, errno, ops). length ops)") (auto simp: length_remove1)

text \<open>The cancellations of a trace, in order: which operation, with which error.\<close>

fun cancel_of :: "event \<Rightarrow> (gb_operation \<times> int) option" where
  "cancel_of (Operation_cancel operation errno) = Some (operation, errno)"
| "cancel_of (Operation_cancel_incoming operation errno) = Some (operation, errno)"
| "cancel_of _ = None"

primrec cancelled :: "event list \<Rightarrow> (gb_operation \<times> int) list" where
  "cancelled [] = []"
| "cancelled (e # es) =
     (case cancel_of e of None \<Rightarrow> cancelled es | Some x \<Rightarrow> x # cancelled es)"

text \<open>
  The events each layer is expected to emit for a connection, written out from the
  connection's fields: the host driver's two callbacks when the driver has them, the
  SVC route requests unless the connection is static, the control notifications unless
  the connection is static or is its interface's own control connection.
\<close>

definition is_own_control :: "conn_ptr \<Rightarrow> gb_world \<Rightarrow> bool" where
  "is_own_control c w =
     (case intf (conns w c) of
        None \<Rightarrow> False
      | Some i \<Rightarrow> Some c = connection (control (intfs w i)))"

definition transport_enable_events :: "gb_env \<Rightarrow> conn_ptr \<Rightarrow> gb_world \<Rightarrow> event list" where
  "transport_enable_events env c w =
     (case cport_enable env of
        None \<Rightarrow> []
      | Some f \<Rightarrow> [Cport_enable (hd_cport_id (conns w c))])"

definition transport_disable_events :: "gb_env \<Rightarrow> conn_ptr \<Rightarrow> gb_world \<Rightarrow> event list" where
  "transport_disable_events env c w =
     (if cport_disable env then [Cport_disable (hd_cport_id (conns w c))] else [])"

definition route_create_event :: "conn_ptr \<Rightarrow> gb_world \<Rightarrow> event" where
  "route_create_event c w =
     Svc_connection_create (ap_intf_id w) (hd_cport_id (conns w c))
       (interface_id (intfs w (the (intf (conns w c))))) (intf_cport_id (conns w c))
       (boot_over_unipro (intfs w (the (intf (conns w c)))))"

definition route_destroy_event :: "conn_ptr \<Rightarrow> gb_world \<Rightarrow> event" where
  "route_destroy_event c w =
     Svc_connection_destroy (ap_intf_id w) (hd_cport_id (conns w c))
       (interface_id (intfs w (the (intf (conns w c))))) (intf_cport_id (conns w c))"

definition route_destroy_events :: "conn_ptr \<Rightarrow> gb_world \<Rightarrow> event list" where
  "route_destroy_events c w =
     (if gb_connection_is_static c w then [] else [route_destroy_event c w])"

definition notify_connected_event :: "conn_ptr \<Rightarrow> gb_world \<Rightarrow> event" where
  "notify_connected_event c w =
     Control_connected (the (intf (conns w c))) (intf_cport_id (conns w c))"

definition notify_disconnected_events :: "gb_env \<Rightarrow> conn_ptr \<Rightarrow> gb_world \<Rightarrow> event list" where
  "notify_disconnected_events env c w =
     (if gb_connection_is_static c w \<or> is_own_control c w then []
      else
        Control_disconnected (the (intf (conns w c))) (intf_cport_id (conns w c)) #
        (if gb_control_disconnected_operation env (the (intf (conns w c)))
              (intf_cport_id (conns w c)) \<noteq> 0
         then [Dev_warn ''failed to disconnect cport''] else []))"

text \<open>Classes of events.\<close>

fun is_svc_event :: "event \<Rightarrow> bool" where
  "is_svc_event (Svc_connection_create a b c d e) = True"
| "is_svc_event (Svc_connection_destroy a b c d) = True"
| "is_svc_event _ = False"

fun is_control_event :: "event \<Rightarrow> bool" where
  "is_control_event (Control_connected i cport_id) = True"
| "is_control_event (Control_disconnected i cport_id) = True"
| "is_control_event _ = False"

fun is_ida_event :: "event \<Rightarrow> bool" where
  "is_ida_event (Ida_simple_get i) = True"
| "is_ida_event (Ida_simple_remove i) = True"
| "is_ida_event _ = False"

fun is_diagnostic :: "event \<Rightarrow> bool" where
  "is_diagnostic (Dev_err m) = True"
| "is_diagnostic (Dev_warn m) = True"
| "is_diagnostic _ = False"

section \<open>Concrete worlds\<close>

text \<open>
  A host device with eight cports and one connection, at address 2: local identifier 5,
  remote identifier 3 on interface 1, Enabled, with three pending operations (the first
  and the third incoming).  The variants change its state, its operations, its
  interface, or what the collaborators answer.
\<close>

definition ex_operations :: "gb_operation list" where
  "ex_operations = [Operation 1 True, Operation 2 False, Operation 3 True]"

definition ex_connection :: gb_connection where
  "ex_connection =
     \<lparr>hd_cport_id = 5, intf_cport_id = 3, intf = Some 1, conn_bundle = Some 1,
      state = GB_CONNECTION_STATE_ENABLED, handler = Some 7,
      operations = ex_operations, wq = Some 0, kref = 1, name = (5, 1, 3)\<rparr>"

definition ex_interface :: gb_interface where
  "ex_interface =
     \<lparr>interface_id = 1, boot_over_unipro = False, control = \<lparr>connection = Some 0\<rparr>\<rparr>"

definition ex_world :: gb_world where
  "ex_world =
     \<lparr>conns = (\<lambda>p. if p = 2 then ex_connection else zeroed_connection),
      intfs = (\<lambda>_. ex_interface), connections = [2],
      bundle_connections = (\<lambda>b. if b = 1 then [2] else []),
      cport_id_map = [5], num_cports = 8, ap_intf_id = 0, trace = []\<rparr>"

definition ex_world_tx :: gb_world where
  "ex_world_tx =
     conn_update 2 (\<lambda>x. x\<lparr>state := GB_CONNECTION_STATE_ENABLED_TX\<rparr>) ex_world"

definition ex_world_incoming :: gb_world where
  "ex_world_incoming =
     conn_update 2 (\<lambda>x. x\<lparr>operations := [Operation 1 True, Operation 3 True]\<rparr>)
       ex_world"

definition ex_env :: gb_env where
  "ex_env =
     \<lparr>cport_enable = Some (\<lambda>_. 0), cport_disable = True,
      gb_svc_connection_create = (\<lambda>_ _ _ _ _. 0),
      gb_control_connected_operation = (\<lambda>_ _. 0),
      gb_control_disconnected_operation = (\<lambda>_ _. 0),
      kzalloc = Some 9, alloc_workqueue = Some 1, CPORT_ID_BAD = - 1\<rparr>"

definition ex_env_svc_fails :: gb_env where
  "ex_env_svc_fails = ex_env\<lparr>gb_svc_connection_create := (\<lambda>_ _ _ _ _. - 5)\<rparr>"

definition ex_env_notify_fails :: gb_env where
  "ex_env_notify_fails = ex_env\<lparr>gb_control_connected_operation := (\<lambda>_ _. - 110)\<rparr>"

definition ex_world_disabled :: gb_world where
  "ex_world_disabled =
     conn_update 2
       (\<lambda>x. x\<lparr>state := GB_CONNECTION_STATE_DISABLED, handler := None, operations := []\<rparr>)
       ex_world"

definition ex_world_static :: gb_world where
  "ex_world_static =
     conn_update 2 (\<lambda>x. x\<lparr>intf_cport_id := 0, intf := None, conn_bundle := None\<rparr>) ex_world"

definition ex_world_static_disabled :: gb_world where
  "ex_world_static_disabled =
     conn_update 2
       (\<lambda>x. x\<lparr>state := GB_CONNECTION_STATE_DISABLED, handler := None, operations := []\<rparr>)
       ex_world_static"

definition ex_world_control :: gb_world where
  "ex_world_control =
     ex_world\<lparr>intfs := (\<lambda>_. ex_interface\<lparr>control := \<lparr>connection = Some 2\<rparr>\<rparr>)\<rparr>"

definition ex_world_control_disabled :: gb_world where
  "ex_world_control_disabled =
     conn_update 2
       (\<lambda>x. x\<lparr>state := GB_CONNECTION_STATE_DISABLED, handler := None, operations := []\<rparr>)
       ex_world_control"

definition ex_env_no_workqueue :: gb_env where
  "ex_env_no_workqueue = ex_env\<lparr>alloc_workqueue := None\<rparr>"

section \<open>Basic facts\<close>

declare gb_connection_cancel_operations.simps [simp del]
declare gb_connection_flush_incoming_operations.simps [simp del]
declare cancel_trace.simps [simp del]

lemma conns_emit [simp]: "conns (emit es w) = conns w"
  by (simp add: emit_def)

lemma trace_emit [simp]: "trace (emit es w) = trace w @ es"
  by (simp add: emit_def)

lemma conns_conn_update [simp]: "conns (conn_update c f w) = (conns w)(c := f (conns w c))"
  by (simp add: conn_update_def)

lemma trace_conn_update [simp]: "trace (conn_update c f w) = trace w"
  by (simp add: conn_update_def)

lemma cancelled_append: "cancelled (es @ es') = cancelled es @ cancelled es'"
  by (induction es) (simp_all split: option.splits)

lemma cancelled_flush_steps:
  "cancelled (concat (map (flush_step c errno) ops)) = map (\<lambda>operation. (operation, errno)) ops"
  by (induction ops) (simp_all add: cancelled_append flush_step_def)

lemma cancelled_cancel_steps:
  "cancelled (concat (map (cancel_step c errno) ops)) = map (\<lambda>operation. (operation, errno)) ops"
  by (induction ops) (simp_all add: cancelled_append cancel_step_def)

lemma find_Some_filter:
  "find P xs = Some a \<Longrightarrow>
     filter P xs = a # filter P (remove1 a xs) \<and>
     filter (\<lambda>x. \<not> P x) (remove1 a xs) = filter (\<lambda>x. \<not> P x) xs"
proof -
  assume "find P xs = Some a"
  then have "P a"
    by (auto simp: find_Some_iff)
  with \<open>find P xs = Some a\<close> show ?thesis
    by (induction xs) (auto split: if_splits)
qed

lemma find_None_filter:
  "find P xs = None \<Longrightarrow> filter P xs = [] \<and> filter (\<lambda>x. \<not> P x) xs = xs"
  by (induction xs) (auto split: if_splits)

section \<open>What the two loops compute\<close>

text \<open>
  The full cancel empties the list and emits \<open>cancel_trace\<close>; nothing else changes.
\<close>

lemma cancel_operations_eq:
  "gb_connection_cancel_operations c errno w =
     emit (cancel_trace c errno (operations (conns w c)))
       (conn_update c (\<lambda>x. x\<lparr>operations := []\<rparr>) w)"
proof (induction c errno w rule: gb_connection_cancel_operations.induct)
  case (1 c errno w)
  show ?case
  proof (cases "operations (conns w c) = []")
    case True
    then have e: "(conns w c)\<lparr>operations := []\<rparr> = conns w c"
      by simp
    have same: "conn_update c (\<lambda>x. x\<lparr>operations := []\<rparr>) w = w"
      unfolding conn_update_def e by simp
    have "gb_connection_cancel_operations c errno w = w"
      using True by (subst gb_connection_cancel_operations.simps) simp
    moreover have "cancel_trace c errno (operations (conns w c)) = []"
      using True by (subst cancel_trace.simps) simp
    ultimately show ?thesis
      unfolding same by (simp add: emit_def)
  next
    case False
    define operation where "operation = last (operations (conns w c))"
    define w1 where "w1 = emit [Operation_get operation, Unlock (Connection_lock c)] w"
    define w2 where "w2 = (if gb_operation_is_incoming operation
                   then gb_operation_cancel_incoming c operation errno w1
                   else gb_operation_cancel c operation errno w1)"
    define w3 where "w3 = emit [Operation_put operation, Lock (Connection_lock c)] w2"
    have ih: "gb_connection_cancel_operations c errno w3 =
       emit (cancel_trace c errno (operations (conns w3 c)))
         (conn_update c (\<lambda>x. x\<lparr>operations := []\<rparr>) w3)"
      using "1.IH" [OF False operation_def w1_def w2_def w3_def] .
    have unfold: "gb_connection_cancel_operations c errno w =
        gb_connection_cancel_operations c errno w3"
      using False
      by (subst gb_connection_cancel_operations.simps)
         (simp add: Let_def operation_def w1_def w2_def w3_def)
    have w3_eq: "w3 = emit (cancel_step c errno operation)
         (conn_update c (\<lambda>x. x\<lparr>operations := remove1 operation (operations x)\<rparr>) w)"
      by (simp add: w3_def w2_def w1_def cancel_step_def gb_operation_cancel_def
          gb_operation_cancel_incoming_def emit_def conn_update_def)
    have ops3: "operations (conns w3 c) = remove1 operation (operations (conns w c))"
      by (simp add: w3_eq)
    have ct: "cancel_trace c errno (operations (conns w c)) =
        cancel_step c errno operation @ cancel_trace c errno (operations (conns w3 c))"
      using False by (subst cancel_trace.simps) (simp add: operation_def ops3)
    show ?thesis
      unfolding unfold ih ct
      by (simp add: w3_eq emit_def conn_update_def)
  qed
qed

text \<open>On a list without repetition, as a linked list is, the order is tail first.\<close>

lemma cancel_trace_rev:
  "distinct ops \<Longrightarrow> cancel_trace c errno ops = concat (map (cancel_step c errno) (rev ops))"
proof (induction ops rule: rev_induct)
  case Nil
  show ?case by (subst cancel_trace.simps) simp
next
  case (snoc a ops)
  then have "remove1 a (ops @ [a]) = ops"
    by (simp add: remove1_append)
  with snoc show ?case
    by (subst cancel_trace.simps) simp
qed

text \<open>
  The drain keeps the outgoing operations, in their order, and cancels the incoming ones
  from the head of the list on.
\<close>

lemma flush_incoming_operations_eq:
  "gb_connection_flush_incoming_operations c errno w =
     emit (concat (map (flush_step c errno)
              (filter gb_operation_is_incoming (operations (conns w c)))))
       (conn_update c
          (\<lambda>x. x\<lparr>operations :=
                   filter (\<lambda>operation. \<not> gb_operation_is_incoming operation)
                     (operations x)\<rparr>) w)"
proof (induction c errno w rule: gb_connection_flush_incoming_operations.induct)
  case (1 c errno w)
  let ?ops = "operations (conns w c)"
  show ?case
  proof (cases "find gb_operation_is_incoming ?ops")
    case None
    have stop: "gb_connection_flush_incoming_operations c errno w = w"
      using None by (subst gb_connection_flush_incoming_operations.simps) simp
    from find_None_filter [OF None]
    have f1: "filter gb_operation_is_incoming ?ops = []"
      and f2: "filter (\<lambda>operation. \<not> gb_operation_is_incoming operation) ?ops = ?ops"
      by simp_all
    have e: "(conns w c)\<lparr>operations := ?ops\<rparr> = conns w c"
      by simp
    have same: "conn_update c
          (\<lambda>x. x\<lparr>operations :=
                   filter (\<lambda>operation. \<not> gb_operation_is_incoming operation)
                     (operations x)\<rparr>) w = w"
      unfolding conn_update_def f2 e by simp
    show ?thesis
      unfolding stop same f1 by (simp add: emit_def)
  next
    case (Some operation)
    then have ne: "?ops \<noteq> []"
      by auto
    define w1 where "w1 = emit [Operation_get operation, Unlock (Connection_lock c)] w"
    define w2 where "w2 = gb_operation_cancel_incoming c operation errno w1"
    define w3 where "w3 = emit [Operation_put operation, Lock (Connection_lock c)] w2"
    have ih: "gb_connection_flush_incoming_operations c errno w3 =
       emit (concat (map (flush_step c errno)
              (filter gb_operation_is_incoming (operations (conns w3 c)))))
         (conn_update c
            (\<lambda>x. x\<lparr>operations :=
                     filter (\<lambda>operation. \<not> gb_operation_is_incoming operation)
                       (operations x)\<rparr>) w3)"
      using "1.IH" [OF ne Some w1_def w2_def w3_def] .
    have unfold: "gb_connection_flush_incoming_operations c errno w =
        gb_connection_flush_incoming_operations c errno w3"
      using ne Some
      by (subst gb_connection_flush_incoming_operations.simps)
         (simp add: Let_def w1_def w2_def w3_def)
    have w3_eq: "w3 = emit (flush_step c errno operation)
         (conn_update c (\<lambda>x. x\<lparr>operations := remove1 operation (operations x)\<rparr>) w)"
      by (simp add: w3_def w2_def w1_def flush_step_def
          gb_operation_cancel_incoming_def emit_def conn_update_def)
    have ops3: "operations (conns w3 c) = remove1 operation ?ops"
      by (simp add: w3_eq)
    from find_Some_filter [OF Some]
    have f1: "filter gb_operation_is_incoming ?ops =
        operation # filter gb_operation_is_incoming (remove1 operation ?ops)"
      and f2: "filter (\<lambda>operation. \<not> gb_operation_is_incoming operation)
          (remove1 operation ?ops) =
        filter (\<lambda>operation. \<not> gb_operation_is_incoming operation) ?ops"
      by simp_all
    show ?thesis
      unfolding unfold ih ops3
      by (simp only: f1) (simp add: w3_eq emit_def conn_update_def f2)
  qed
qed

section \<open>Receive-side disable\<close>

text \<open>
  C5.  From Enabled, \<open>gb_connection_disable_rx\<close> leaves the connection in
  Enabled-Tx with the handler cleared; no incoming operation is left on the list; every
  incoming operation that was on it, and no other, has been cancelled with
  \<open>-ESHUTDOWN\<close>; the outgoing operations are all still there, in their order.
\<close>

theorem disable_rx_drains_incoming:
  assumes "state (conns w c) = GB_CONNECTION_STATE_ENABLED"
  shows "state (conns (gb_connection_disable_rx c w) c) = GB_CONNECTION_STATE_ENABLED_TX
    \<and> handler (conns (gb_connection_disable_rx c w) c) = None
    \<and> filter gb_operation_is_incoming
          (operations (conns (gb_connection_disable_rx c w) c)) = []
    \<and> cancelled (trace (gb_connection_disable_rx c w)) =
        cancelled (trace w) @
        map (\<lambda>operation. (operation, - ESHUTDOWN))
          (filter gb_operation_is_incoming (operations (conns w c)))
    \<and> operations (conns (gb_connection_disable_rx c w) c) =
        filter (\<lambda>operation. \<not> gb_operation_is_incoming operation)
          (operations (conns w c))"
  using assms
  by (simp add: gb_connection_disable_rx_def Let_def flush_incoming_operations_eq
      set_state_def set_handler_def cancelled_append cancelled_flush_steps)

theorem disable_rx_drains_incoming_witness:
  "state (conns ex_world 2) = GB_CONNECTION_STATE_ENABLED
   \<and> state (conns (gb_connection_disable_rx 2 ex_world) 2) = GB_CONNECTION_STATE_ENABLED_TX
   \<and> handler (conns (gb_connection_disable_rx 2 ex_world) 2) = None
   \<and> cancelled (trace (gb_connection_disable_rx 2 ex_world)) =
       [(Operation 1 True, - 108), (Operation 3 True, - 108)]
   \<and> operations (conns (gb_connection_disable_rx 2 ex_world) 2) = [Operation 2 False]"
proof -
  have h: "state (conns ex_world 2) = GB_CONNECTION_STATE_ENABLED"
    by (simp add: ex_world_def ex_connection_def)
  have ops: "operations (conns ex_world 2) = ex_operations"
    by (simp add: ex_world_def ex_connection_def)
  have tr: "trace ex_world = []"
    by (simp add: ex_world_def)
  show ?thesis
    using h disable_rx_drains_incoming [OF h]
    by (simp add: ops tr ex_operations_def gb_operation_is_incoming_def ESHUTDOWN_def)
qed

text \<open>
  C9.  In any state other than Enabled, \<open>gb_connection_disable_rx\<close> only takes and
  gives back the two locks: no connection object changes (so neither the state, the
  handler nor the operation list of this one), and nothing is cancelled.
\<close>

theorem disable_rx_noop_unless_enabled:
  assumes "state (conns w c) \<noteq> GB_CONNECTION_STATE_ENABLED"
  shows "gb_connection_disable_rx c w =
      emit [Lock (Connection_mutex c), Lock (Connection_lock c),
            Unlock (Connection_lock c), Unlock (Connection_mutex c)] w
    \<and> conns (gb_connection_disable_rx c w) = conns w
    \<and> cancelled (trace (gb_connection_disable_rx c w)) = cancelled (trace w)"
  using assms
  by (simp add: gb_connection_disable_rx_def Let_def emit_def cancelled_append)

theorem disable_rx_noop_unless_enabled_witness:
  "state (conns ex_world_tx 2) \<noteq> GB_CONNECTION_STATE_ENABLED
   \<and> state (conns (gb_connection_disable_rx 2 ex_world_tx) 2)
       = GB_CONNECTION_STATE_ENABLED_TX
   \<and> handler (conns (gb_connection_disable_rx 2 ex_world_tx) 2) = Some 7
   \<and> operations (conns (gb_connection_disable_rx 2 ex_world_tx) 2) = ex_operations
   \<and> cancelled (trace (gb_connection_disable_rx 2 ex_world_tx)) = []"
proof -
  have h: "state (conns ex_world_tx 2) \<noteq> GB_CONNECTION_STATE_ENABLED"
    by (simp add: ex_world_tx_def)
  show ?thesis
    using disable_rx_noop_unless_enabled [OF h]
    by (simp add: ex_world_tx_def ex_world_def ex_connection_def)
qed

section \<open>The order in which operations are cancelled\<close>

text \<open>
  C6, as the claim states it, fails for the incoming-only drain: with two incoming
  operations pending, the drain cancels the one at the head of the list first, not the
  one at the tail.
\<close>

theorem flush_tail_first_counterexample:
  "operations (conns ex_world_incoming 2) = [Operation 1 True, Operation 3 True]
   \<and> map fst (cancelled (trace
        (gb_connection_flush_incoming_operations 2 (- ESHUTDOWN) ex_world_incoming)))
     = [Operation 1 True, Operation 3 True]
   \<and> map fst (cancelled (trace
        (gb_connection_flush_incoming_operations 2 (- ESHUTDOWN) ex_world_incoming)))
     \<noteq> rev (operations (conns ex_world_incoming 2))"
  by (simp add: flush_incoming_operations_eq cancelled_append flush_step_def
      gb_operation_is_incoming_def ex_world_incoming_def ex_world_def)

text \<open>
  C6, amended.  The full cancel takes the operation at the tail of the list in every
  round, so on a list without repeated entries (as a linked list is) it cancels the
  pending operations most recently added first; the incoming-only drain takes the first
  incoming operation from the head of the list in every round, so it cancels the
  incoming operations oldest first.
\<close>

theorem cancel_selection_order:
  "(distinct (operations (conns w c)) \<longrightarrow>
      cancelled (trace (gb_connection_cancel_operations c errno w)) =
        cancelled (trace w) @
        map (\<lambda>operation. (operation, errno)) (rev (operations (conns w c))))
   \<and> cancelled (trace (gb_connection_flush_incoming_operations c errno w)) =
        cancelled (trace w) @
        map (\<lambda>operation. (operation, errno))
          (filter gb_operation_is_incoming (operations (conns w c)))"
  by (simp add: cancel_operations_eq flush_incoming_operations_eq cancelled_append
      cancelled_flush_steps cancel_trace_rev cancelled_cancel_steps)

theorem cancel_selection_order_witness:
  "distinct (operations (conns ex_world 2))
   \<and> map fst (cancelled (trace (gb_connection_cancel_operations 2 (- ESHUTDOWN) ex_world)))
       = [Operation 3 True, Operation 2 False, Operation 1 True]
   \<and> map fst (cancelled (trace
        (gb_connection_flush_incoming_operations 2 (- ESHUTDOWN) ex_world)))
       = [Operation 1 True, Operation 3 True]"
proof -
  have d: "distinct (operations (conns ex_world 2))"
    by (simp add: ex_world_def ex_connection_def ex_operations_def)
  have ops: "operations (conns ex_world 2) = ex_operations"
    by (simp add: ex_world_def ex_connection_def)
  have tr: "trace ex_world = []"
    by (simp add: ex_world_def)
  show ?thesis
    using d cancel_selection_order [of ex_world 2 "- ESHUTDOWN"]
    by (simp add: ops tr ex_operations_def gb_operation_is_incoming_def)
qed

section \<open>The events of the three layers\<close>

lemma emit_emit: "emit es (emit es' w) = emit (es' @ es) w"
  by (simp add: emit_def)

lemma conn_update_emit: "conn_update c f (emit es w) = emit es (conn_update c f w)"
  by (simp add: emit_def conn_update_def)

lemma conn_update_conn_update:
  "conn_update c f (conn_update c g w) = conn_update c (\<lambda>x. f (g x)) w"
  by (simp add: conn_update_def)

lemma intfs_emit [simp]: "intfs (emit es w) = intfs w"
  by (simp add: emit_def)

lemma intfs_conn_update [simp]: "intfs (conn_update c f w) = intfs w"
  by (simp add: conn_update_def)

lemma ap_intf_id_emit [simp]: "ap_intf_id (emit es w) = ap_intf_id w"
  by (simp add: emit_def)

lemma ap_intf_id_conn_update [simp]: "ap_intf_id (conn_update c f w) = ap_intf_id w"
  by (simp add: conn_update_def)

lemma events_emit [simp]:
  "notify_disconnected_events env c (emit es w) = notify_disconnected_events env c w"
  "notify_connected_event c (emit es w) = notify_connected_event c w"
  "route_create_event c (emit es w) = route_create_event c w"
  "route_destroy_event c (emit es w) = route_destroy_event c w"
  "route_destroy_events c (emit es w) = route_destroy_events c w"
  "transport_enable_events env c (emit es w) = transport_enable_events env c w"
  "transport_disable_events env c (emit es w) = transport_disable_events env c w"
  by (simp_all add: notify_disconnected_events_def notify_connected_event_def
      route_create_event_def route_destroy_event_def route_destroy_events_def
      transport_enable_events_def transport_disable_events_def
      gb_connection_is_static_def is_own_control_def split: option.splits)

lemma events_conn_update [simp]:
  assumes "\<And>x. intf (f x) = intf x" and "\<And>x. hd_cport_id (f x) = hd_cport_id x"
    and "\<And>x. intf_cport_id (f x) = intf_cport_id x"
  shows "notify_disconnected_events env c (conn_update c f w) =
      notify_disconnected_events env c w"
    and "notify_connected_event c (conn_update c f w) = notify_connected_event c w"
    and "route_create_event c (conn_update c f w) = route_create_event c w"
    and "route_destroy_event c (conn_update c f w) = route_destroy_event c w"
    and "route_destroy_events c (conn_update c f w) = route_destroy_events c w"
    and "transport_enable_events env c (conn_update c f w) = transport_enable_events env c w"
    and "transport_disable_events env c (conn_update c f w) =
      transport_disable_events env c w"
  by (simp_all add: assms notify_disconnected_events_def notify_connected_event_def
      route_create_event_def route_destroy_event_def route_destroy_events_def
      transport_enable_events_def transport_disable_events_def
      gb_connection_is_static_def is_own_control_def split: option.splits)

lemma control_disconnected_eq:
  "gb_connection_control_disconnected env c w = emit (notify_disconnected_events env c w) w"
  by (simp add: gb_connection_control_disconnected_def notify_disconnected_events_def
      is_own_control_def gb_connection_is_static_def Let_def emit_def
      split: option.splits)

lemma svc_connection_destroy_eq:
  "gb_connection_svc_connection_destroy c w = emit (route_destroy_events c w) w"
  by (simp add: gb_connection_svc_connection_destroy_def route_destroy_events_def
      route_destroy_event_def emit_def)

lemma hd_cport_disable_eq:
  "gb_connection_hd_cport_disable env c w = emit (transport_disable_events env c w) w"
  by (simp add: gb_connection_hd_cport_disable_def transport_disable_events_def emit_def)

lemma disable_eq:
  assumes "state (conns w c) \<noteq> GB_CONNECTION_STATE_DISABLED"
  shows "gb_connection_disable env c w =
     emit ([Lock (Connection_mutex c)] @ notify_disconnected_events env c w @
           [Lock (Connection_lock c), Set_state c GB_CONNECTION_STATE_DISABLED] @
           cancel_trace c (- ESHUTDOWN) (operations (conns w c)) @
           [Set_handler c None, Unlock (Connection_lock c)] @ route_destroy_events c w @
           transport_disable_events env c w @ [Unlock (Connection_mutex c)])
       (conn_update c
          (\<lambda>x. x\<lparr>state := GB_CONNECTION_STATE_DISABLED, operations := [],
                 handler := None\<rparr>) w)"
proof -
  have "gb_connection_disable env c w =
      emit [Unlock (Connection_mutex c)]
        (gb_connection_hd_cport_disable env c
          (gb_connection_svc_connection_destroy c
            (emit [Unlock (Connection_lock c)]
              (set_handler c None
                (gb_connection_cancel_operations c (- ESHUTDOWN)
                  (set_state c GB_CONNECTION_STATE_DISABLED
                    (emit [Lock (Connection_lock c)]
                      (gb_connection_control_disconnected env c
                        (emit [Lock (Connection_mutex c)] w)))))))))"
    using assms by (simp add: gb_connection_disable_def Let_def)
  also have "\<dots> =
     emit ([Lock (Connection_mutex c)] @ notify_disconnected_events env c w @
           [Lock (Connection_lock c), Set_state c GB_CONNECTION_STATE_DISABLED] @
           cancel_trace c (- ESHUTDOWN) (operations (conns w c)) @
           [Set_handler c None, Unlock (Connection_lock c)] @ route_destroy_events c w @
           transport_disable_events env c w @ [Unlock (Connection_mutex c)])
       (conn_update c
          (\<lambda>x. x\<lparr>state := GB_CONNECTION_STATE_DISABLED, operations := [],
                 handler := None\<rparr>) w)"
    by (simp add: control_disconnected_eq svc_connection_destroy_eq hd_cport_disable_eq
        cancel_operations_eq set_state_def set_handler_def emit_emit conn_update_emit
        conn_update_conn_update)
  finally show ?thesis .
qed

section \<open>Disable\<close>

text \<open>
  C2.  \<open>gb_connection_disable\<close> always ends in Disabled.  From Disabled it only
  takes and gives back the connection's mutex.  From any other state its trace is, in
  this order: the disconnected notification to the peer's control channel; then, between
  taking and releasing the connection's spinlock, the write of the state Disabled, the
  cancellation of every pending operation (incoming and outgoing) with
  \<open>-ESHUTDOWN\<close>, and the write that clears the handler; then the SVC request that
  destroys the route (none for a static connection); then the host driver's
  \<open>cport_disable\<close> (when the driver has one).  The notification is skipped for a
  static connection and for an interface's own control connection.  The connection is
  left Disabled, with no handler and an empty operation list, and nothing else in the
  world changes.
\<close>

theorem disable_order:
  "state (conns (gb_connection_disable env c w) c) = GB_CONNECTION_STATE_DISABLED
   \<and> (state (conns w c) = GB_CONNECTION_STATE_DISABLED \<longrightarrow>
        gb_connection_disable env c w =
          emit [Lock (Connection_mutex c), Unlock (Connection_mutex c)] w)
   \<and> (state (conns w c) \<noteq> GB_CONNECTION_STATE_DISABLED \<longrightarrow>
        gb_connection_disable env c w =
          emit ([Lock (Connection_mutex c)] @ notify_disconnected_events env c w @
                [Lock (Connection_lock c), Set_state c GB_CONNECTION_STATE_DISABLED] @
                cancel_trace c (- ESHUTDOWN) (operations (conns w c)) @
                [Set_handler c None, Unlock (Connection_lock c)] @
                route_destroy_events c w @
                transport_disable_events env c w @ [Unlock (Connection_mutex c)])
            (conn_update c
               (\<lambda>x. x\<lparr>state := GB_CONNECTION_STATE_DISABLED, operations := [],
                      handler := None\<rparr>) w))
   \<and> (state (conns w c) \<noteq> GB_CONNECTION_STATE_DISABLED
        \<and> distinct (operations (conns w c)) \<longrightarrow>
        cancelled (trace (gb_connection_disable env c w)) =
          cancelled (trace w) @
          map (\<lambda>operation. (operation, - ESHUTDOWN)) (rev (operations (conns w c))))"
proof (cases "state (conns w c) = GB_CONNECTION_STATE_DISABLED")
  case True
  then show ?thesis
    by (simp add: gb_connection_disable_def Let_def emit_def)
next
  case False
  have nc: "cancelled (notify_disconnected_events env c w) = []"
    by (simp add: notify_disconnected_events_def)
  have rc: "cancelled (route_destroy_events c w) = []"
    by (simp add: route_destroy_events_def route_destroy_event_def)
  have tc: "cancelled (transport_disable_events env c w) = []"
    by (simp add: transport_disable_events_def)
  have st: "state (conns (gb_connection_disable env c w) c) = GB_CONNECTION_STATE_DISABLED"
    by (simp add: disable_eq [OF False])
  have ca: "distinct (operations (conns w c)) \<Longrightarrow>
      cancelled (trace (gb_connection_disable env c w)) =
        cancelled (trace w) @
        map (\<lambda>operation. (operation, - ESHUTDOWN)) (rev (operations (conns w c)))"
    by (simp add: disable_eq [OF False] cancelled_append nc rc tc cancel_trace_rev
        cancelled_cancel_steps)
  show ?thesis
    using False st ca disable_eq [OF False, of env] by simp
qed


theorem disable_order_witness:
  "state (conns ex_world 2) \<noteq> GB_CONNECTION_STATE_DISABLED
   \<and> distinct (operations (conns ex_world 2))
   \<and> trace (gb_connection_disable ex_env 2 ex_world) =
       [Lock (Connection_mutex 2), Control_disconnected 1 3, Lock (Connection_lock 2),
        Set_state 2 GB_CONNECTION_STATE_DISABLED,
        Operation_get (Operation 3 True), Unlock (Connection_lock 2),
        Operation_cancel_incoming (Operation 3 True) (- 108),
        Operation_put (Operation 3 True), Lock (Connection_lock 2),
        Operation_get (Operation 2 False), Unlock (Connection_lock 2),
        Operation_cancel (Operation 2 False) (- 108),
        Operation_put (Operation 2 False), Lock (Connection_lock 2),
        Operation_get (Operation 1 True), Unlock (Connection_lock 2),
        Operation_cancel_incoming (Operation 1 True) (- 108),
        Operation_put (Operation 1 True), Lock (Connection_lock 2),
        Set_handler 2 None,
        Unlock (Connection_lock 2), Svc_connection_destroy 0 5 1 3, Cport_disable 5,
        Unlock (Connection_mutex 2)]
   \<and> state (conns (gb_connection_disable ex_env 2 ex_world) 2) = GB_CONNECTION_STATE_DISABLED
   \<and> handler (conns (gb_connection_disable ex_env 2 ex_world) 2) = None
   \<and> operations (conns (gb_connection_disable ex_env 2 ex_world) 2) = []
   \<and> state (conns ex_world_disabled 2) = GB_CONNECTION_STATE_DISABLED
   \<and> trace (gb_connection_disable ex_env 2 ex_world_disabled) =
       [Lock (Connection_mutex 2), Unlock (Connection_mutex 2)]
   \<and> conns (gb_connection_disable ex_env 2 ex_world_disabled) = conns ex_world_disabled"
proof -
  have c2: "conns ex_world 2 = ex_connection"
    by (simp add: ex_world_def)
  have h1: "state (conns ex_world 2) \<noteq> GB_CONNECTION_STATE_DISABLED"
    by (simp add: c2 ex_connection_def)
  have h2: "distinct (operations (conns ex_world 2))"
    by (simp add: c2 ex_connection_def ex_operations_def)
  have h3: "state (conns ex_world_disabled 2) = GB_CONNECTION_STATE_DISABLED"
    by (simp add: ex_world_disabled_def)
  have ct: "cancel_trace 2 (- ESHUTDOWN) (operations (conns ex_world 2)) =
      concat (map (cancel_step 2 (- ESHUTDOWN)) (rev (operations (conns ex_world 2))))"
    by (rule cancel_trace_rev [OF h2])
  have ev: "notify_disconnected_events ex_env 2 ex_world = [Control_disconnected 1 3]"
    "route_destroy_events 2 ex_world = [Svc_connection_destroy 0 5 1 3]"
    "transport_disable_events ex_env 2 ex_world = [Cport_disable 5]"
    by (simp_all add: notify_disconnected_events_def route_destroy_events_def
        route_destroy_event_def transport_disable_events_def gb_connection_is_static_def
        is_own_control_def c2 ex_connection_def ex_env_def ex_world_def ex_interface_def)
  have tr: "trace ex_world = []" "trace ex_world_disabled = []"
    by (simp_all add: ex_world_def ex_world_disabled_def)
  from disable_order [of ex_env 2 ex_world] h1
  have a: "gb_connection_disable ex_env 2 ex_world =
          emit ([Lock (Connection_mutex 2)] @ notify_disconnected_events ex_env 2 ex_world @
                [Lock (Connection_lock 2), Set_state 2 GB_CONNECTION_STATE_DISABLED] @
                cancel_trace 2 (- ESHUTDOWN) (operations (conns ex_world 2)) @
                [Set_handler 2 None, Unlock (Connection_lock 2)] @
                route_destroy_events 2 ex_world @
                transport_disable_events ex_env 2 ex_world @ [Unlock (Connection_mutex 2)])
            (conn_update 2
               (\<lambda>x. x\<lparr>state := GB_CONNECTION_STATE_DISABLED, operations := [],
                      handler := None\<rparr>) ex_world)"
    by simp
  from disable_order [of ex_env 2 ex_world_disabled] h3
  have b: "gb_connection_disable ex_env 2 ex_world_disabled =
      emit [Lock (Connection_mutex 2), Unlock (Connection_mutex 2)] ex_world_disabled"
    by simp
  show ?thesis
    unfolding a b ct ev
    using h1 h2 h3
    by (simp add: tr c2 ex_connection_def ex_operations_def cancel_step_def
        gb_operation_is_incoming_def ESHUTDOWN_def)
qed

section \<open>Enable\<close>

lemma fst_emit [simp]:
  "fst (gb_connection_hd_cport_enable env c (emit es w)) =
     fst (gb_connection_hd_cport_enable env c w)"
  "fst (gb_connection_svc_connection_create env c (emit es w)) =
     fst (gb_connection_svc_connection_create env c w)"
  "fst (gb_connection_control_connected env c (emit es w)) =
     fst (gb_connection_control_connected env c w)"
  "gb_connection_is_static c (emit es w) = gb_connection_is_static c w"
  "is_own_control c (emit es w) = is_own_control c w"
  by (simp_all add: gb_connection_hd_cport_enable_def
      gb_connection_svc_connection_create_def gb_connection_control_connected_def
      gb_connection_is_static_def is_own_control_def Let_def split: option.splits)

lemma fst_conn_update [simp]:
  assumes "\<And>x. intf (f x) = intf x" and "\<And>x. hd_cport_id (f x) = hd_cport_id x"
    and "\<And>x. intf_cport_id (f x) = intf_cport_id x"
  shows "fst (gb_connection_hd_cport_enable env c (conn_update c f w)) =
      fst (gb_connection_hd_cport_enable env c w)"
    and "fst (gb_connection_svc_connection_create env c (conn_update c f w)) =
      fst (gb_connection_svc_connection_create env c w)"
    and "fst (gb_connection_control_connected env c (conn_update c f w)) =
      fst (gb_connection_control_connected env c w)"
    and "gb_connection_is_static c (conn_update c f w) = gb_connection_is_static c w"
    and "is_own_control c (conn_update c f w) = is_own_control c w"
  by (simp_all add: assms gb_connection_hd_cport_enable_def
      gb_connection_svc_connection_create_def gb_connection_control_connected_def
      gb_connection_is_static_def is_own_control_def Let_def split: option.splits)

lemma hd_cport_enable_ok:
  "fst (gb_connection_hd_cport_enable env c w) = 0 \<Longrightarrow>
   gb_connection_hd_cport_enable env c w = (0, emit (transport_enable_events env c w) w)"
  by (cases "cport_enable env")
     (auto simp: gb_connection_hd_cport_enable_def transport_enable_events_def Let_def
        emit_def split: if_splits)

lemma svc_connection_create_fail:
  "fst (gb_connection_svc_connection_create env c w) \<noteq> 0 \<Longrightarrow>
   gb_connection_svc_connection_create env c w =
     (fst (gb_connection_svc_connection_create env c w),
      emit [route_create_event c w, Dev_err ''failed to create svc connection''] w)
   \<and> \<not> gb_connection_is_static c w"
  by (simp add: gb_connection_svc_connection_create_def route_create_event_def Let_def
      emit_def split: if_splits)

lemma svc_connection_create_ok:
  "fst (gb_connection_svc_connection_create env c w) = 0 \<Longrightarrow>
   gb_connection_svc_connection_create env c w =
     (0, emit (if gb_connection_is_static c w then [] else [route_create_event c w]) w)"
  by (simp add: gb_connection_svc_connection_create_def route_create_event_def Let_def
      emit_def split: if_splits)

lemma control_connected_fail:
  "fst (gb_connection_control_connected env c w) \<noteq> 0 \<Longrightarrow>
   gb_connection_control_connected env c w =
     (fst (gb_connection_control_connected env c w),
      emit [notify_connected_event c w, Dev_err ''failed to connect cport''] w)
   \<and> \<not> gb_connection_is_static c w \<and> \<not> is_own_control c w"
  by (simp add: gb_connection_control_connected_def notify_connected_event_def Let_def
      emit_def gb_connection_is_static_def is_own_control_def
      split: if_splits option.splits)

lemma control_connected_ok:
  "fst (gb_connection_control_connected env c w) = 0 \<Longrightarrow>
   gb_connection_control_connected env c w =
     (0, emit (if gb_connection_is_static c w \<or> is_own_control c w then []
               else [notify_connected_event c w]) w)"
  by (simp add: gb_connection_control_connected_def notify_connected_event_def Let_def
      emit_def gb_connection_is_static_def is_own_control_def
      split: if_splits option.splits)

text \<open>Enable in a state other than Disabled, and enable whose transport step fails.\<close>

lemma enable_enabled:
  "state (conns w c) = GB_CONNECTION_STATE_ENABLED \<Longrightarrow>
   gb_connection_enable env c h w =
     (0, emit [Lock (Connection_mutex c), Unlock (Connection_mutex c)] w)"
  by (simp add: gb_connection_enable_def Let_def emit_emit)

lemma enable_enabled_tx:
  "state (conns w c) = GB_CONNECTION_STATE_ENABLED_TX \<Longrightarrow>
   gb_connection_enable env c h w =
     (if h = None
      then (0, emit [Lock (Connection_mutex c), Unlock (Connection_mutex c)] w)
      else (0, emit [Lock (Connection_mutex c), Lock (Connection_lock c),
                     Set_handler c h, Set_state c GB_CONNECTION_STATE_ENABLED,
                     Unlock (Connection_lock c), Unlock (Connection_mutex c)]
                 (conn_update c
                    (\<lambda>x. x\<lparr>handler := h, state := GB_CONNECTION_STATE_ENABLED\<rparr>) w)))"
  by (simp add: gb_connection_enable_def Let_def set_state_def set_handler_def emit_emit
      conn_update_emit conn_update_conn_update)

lemma enable_transport_fails:
  assumes dis: "state (conns w c) = GB_CONNECTION_STATE_DISABLED"
    and tr: "fst (gb_connection_hd_cport_enable env c w) \<noteq> 0"
  shows "gb_connection_enable env c h w =
     (fst (gb_connection_hd_cport_enable env c w),
      emit ([Lock (Connection_mutex c)] @ transport_enable_events env c w @
            [Dev_err ''failed to enable host cport'', Unlock (Connection_mutex c)]) w)"
proof -
  let ?w0 = "emit [Lock (Connection_mutex c)] w"
  have e1: "gb_connection_hd_cport_enable env c ?w0 =
      (fst (gb_connection_hd_cport_enable env c w),
       emit (transport_enable_events env c w @ [Dev_err ''failed to enable host cport''])
         ?w0)"
    using tr
    by (cases "cport_enable env")
       (auto simp: gb_connection_hd_cport_enable_def transport_enable_events_def Let_def
          emit_def split: if_splits)
  have "gb_connection_enable env c h w =
      (fst (gb_connection_hd_cport_enable env c w),
       emit [Unlock (Connection_mutex c)]
         (emit (transport_enable_events env c w @ [Dev_err ''failed to enable host cport''])
            ?w0))"
    using dis tr by (simp add: gb_connection_enable_def Let_def e1 split del: if_split)
  then show ?thesis
    by (simp add: emit_emit)
qed

text \<open>Enable from Disabled, once the transport channel is enabled: the three outcomes.\<close>

lemma enable_svc_fails:
  assumes dis: "state (conns w c) = GB_CONNECTION_STATE_DISABLED"
    and tr: "fst (gb_connection_hd_cport_enable env c w) = 0"
    and svc: "fst (gb_connection_svc_connection_create env c w) \<noteq> 0"
  shows "gb_connection_enable env c h w =
     (fst (gb_connection_svc_connection_create env c w),
      emit ([Lock (Connection_mutex c)] @ transport_enable_events env c w @
            [route_create_event c w, Dev_err ''failed to create svc connection''] @
            transport_disable_events env c w @ [Unlock (Connection_mutex c)]) w)"
proof -
  let ?w0 = "emit [Lock (Connection_mutex c)] w"
  let ?w1 = "emit (transport_enable_events env c w) ?w0"
  have e1: "gb_connection_hd_cport_enable env c ?w0 = (0, ?w1)"
    using hd_cport_enable_ok [of env c ?w0] tr by simp
  have e2: "gb_connection_svc_connection_create env c ?w1 =
      (fst (gb_connection_svc_connection_create env c w),
       emit [route_create_event c w, Dev_err ''failed to create svc connection''] ?w1)"
    using svc_connection_create_fail [of env c ?w1] svc by simp
  have "gb_connection_enable env c h w =
      (fst (gb_connection_svc_connection_create env c w),
       emit [Unlock (Connection_mutex c)]
         (gb_connection_hd_cport_disable env c
            (emit [route_create_event c w, Dev_err ''failed to create svc connection'']
               ?w1)))"
    using dis svc
    by (simp add: gb_connection_enable_def Let_def e1 e2 split del: if_split)
  then show ?thesis
    by (simp add: hd_cport_disable_eq emit_emit)
qed

lemma enable_notify_fails:
  assumes dis: "state (conns w c) = GB_CONNECTION_STATE_DISABLED"
    and tr: "fst (gb_connection_hd_cport_enable env c w) = 0"
    and svc: "fst (gb_connection_svc_connection_create env c w) = 0"
    and ctl: "fst (gb_connection_control_connected env c w) \<noteq> 0"
  shows "gb_connection_enable env c h w =
     (fst (gb_connection_control_connected env c w),
      emit ([Lock (Connection_mutex c)] @ transport_enable_events env c w @
            [route_create_event c w, Lock (Connection_lock c), Set_handler c h,
             Set_state c (if h \<noteq> None then GB_CONNECTION_STATE_ENABLED
                          else GB_CONNECTION_STATE_ENABLED_TX),
             Unlock (Connection_lock c),
             notify_connected_event c w, Dev_err ''failed to connect cport'',
             Lock (Connection_lock c), Set_state c GB_CONNECTION_STATE_DISABLED] @
            cancel_trace c (- ESHUTDOWN) (operations (conns w c)) @
            [Set_handler c None, Unlock (Connection_lock c), route_destroy_event c w] @
            transport_disable_events env c w @ [Unlock (Connection_mutex c)])
        (conn_update c
           (\<lambda>x. x\<lparr>state := GB_CONNECTION_STATE_DISABLED, operations := [],
                  handler := None\<rparr>) w))"
proof -
  let ?w0 = "emit [Lock (Connection_mutex c)] w"
  let ?w1 = "emit (transport_enable_events env c w) ?w0"
  let ?w2 = "emit [route_create_event c w] ?w1"
  let ?w3 = "\<lambda>s. emit [Unlock (Connection_lock c)]
               (set_state c s (set_handler c h (emit [Lock (Connection_lock c)] ?w2)))"
  from control_connected_fail [OF ctl]
  have ns: "\<not> gb_connection_is_static c w"
    by simp
  have e1: "gb_connection_hd_cport_enable env c ?w0 = (0, ?w1)"
    using hd_cport_enable_ok [of env c ?w0] tr by simp
  have e2: "gb_connection_svc_connection_create env c ?w1 = (0, ?w2)"
    using svc_connection_create_ok [of env c ?w1] svc ns by simp
  have e3: "gb_connection_control_connected env c (?w3 s) =
      (fst (gb_connection_control_connected env c w),
       emit [notify_connected_event c w, Dev_err ''failed to connect cport''] (?w3 s))"
    for s
    using control_connected_fail [of env c "?w3 s"] ctl
    by (simp add: set_state_def set_handler_def)
  have rd: "route_destroy_events c w = [route_destroy_event c w]"
    using ns by (simp add: route_destroy_events_def)
  have "gb_connection_enable env c h w =
      (fst (gb_connection_control_connected env c w),
       emit [Unlock (Connection_mutex c)]
         (gb_connection_hd_cport_disable env c
            (gb_connection_svc_connection_destroy c
               (emit [Unlock (Connection_lock c)]
                  (set_handler c None
                     (gb_connection_cancel_operations c (- ESHUTDOWN)
                        (set_state c GB_CONNECTION_STATE_DISABLED
                           (emit [Lock (Connection_lock c)]
                              (emit [notify_connected_event c w,
                                     Dev_err ''failed to connect cport'']
                                 (?w3 (if h \<noteq> None then GB_CONNECTION_STATE_ENABLED
                                       else GB_CONNECTION_STATE_ENABLED_TX)))))))))))"
    using dis ctl
    by (simp add: gb_connection_enable_def Let_def e1 e2 e3 split del: if_split)
  then show ?thesis
    by (simp add: hd_cport_disable_eq svc_connection_destroy_eq cancel_operations_eq
        set_state_def set_handler_def emit_emit conn_update_emit conn_update_conn_update
        rd split del: if_split)
qed

lemma enable_succeeds:
  assumes dis: "state (conns w c) = GB_CONNECTION_STATE_DISABLED"
    and tr: "fst (gb_connection_hd_cport_enable env c w) = 0"
    and svc: "fst (gb_connection_svc_connection_create env c w) = 0"
    and ctl: "fst (gb_connection_control_connected env c w) = 0"
  shows "gb_connection_enable env c h w =
     (0,
      emit ([Lock (Connection_mutex c)] @ transport_enable_events env c w @
            (if gb_connection_is_static c w then [] else [route_create_event c w]) @
            [Lock (Connection_lock c), Set_handler c h,
             Set_state c (if h \<noteq> None then GB_CONNECTION_STATE_ENABLED
                          else GB_CONNECTION_STATE_ENABLED_TX),
             Unlock (Connection_lock c)] @
            (if gb_connection_is_static c w \<or> is_own_control c w then []
             else [notify_connected_event c w]) @
            [Unlock (Connection_mutex c)])
        (conn_update c
           (\<lambda>x. x\<lparr>handler := h,
                  state := (if h \<noteq> None then GB_CONNECTION_STATE_ENABLED
                            else GB_CONNECTION_STATE_ENABLED_TX)\<rparr>) w))"
proof -
  let ?w0 = "emit [Lock (Connection_mutex c)] w"
  let ?w1 = "emit (transport_enable_events env c w) ?w0"
  let ?w2 = "emit (if gb_connection_is_static c w then [] else [route_create_event c w]) ?w1"
  let ?w3 = "\<lambda>s. emit [Unlock (Connection_lock c)]
               (set_state c s (set_handler c h (emit [Lock (Connection_lock c)] ?w2)))"
  have e1: "gb_connection_hd_cport_enable env c ?w0 = (0, ?w1)"
    using hd_cport_enable_ok [of env c ?w0] tr by simp
  have e2: "gb_connection_svc_connection_create env c ?w1 = (0, ?w2)"
    using svc_connection_create_ok [of env c ?w1] svc by simp
  have e3: "gb_connection_control_connected env c (?w3 s) =
      (0, emit (if gb_connection_is_static c w \<or> is_own_control c w then []
                else [notify_connected_event c w]) (?w3 s))"
    for s
    using control_connected_ok [of env c "?w3 s"] ctl
    by (simp add: set_state_def set_handler_def)
  have "gb_connection_enable env c h w =
      (0, emit [Unlock (Connection_mutex c)]
            (emit (if gb_connection_is_static c w \<or> is_own_control c w then []
                   else [notify_connected_event c w])
               (?w3 (if h \<noteq> None then GB_CONNECTION_STATE_ENABLED
                     else GB_CONNECTION_STATE_ENABLED_TX))))"
    using dis
    by (simp add: gb_connection_enable_def Let_def e1 e2 e3 split del: if_split)
  then show ?thesis
    by (simp add: set_state_def set_handler_def emit_emit conn_update_emit
        conn_update_conn_update split del: if_split)
qed

text \<open>
  C1.  Let an enable fail.  Then the connection was Disabled and is Disabled again: it
  is never left in Enabled-Tx or Enabled; and a connection that had no handler (as every
  Disabled connection, see the last section) has none afterwards.  If the transport
  channel had been enabled, the failure is one of two.  Either the SVC refused to create
  the route: then its error is returned and the only thing done after that is the
  transport disable (the host driver's \<open>cport_disable\<close>, called when the driver
  has one).  Or the route was created and the connected notification failed: then its
  error is returned after the state is written Disabled, the pending operations are
  cancelled with \<open>-ESHUTDOWN\<close> and the handler is cleared (these three under
  the spinlock), the route is destroyed and the transport is disabled, in this order.
\<close>

theorem enable_failure_rolls_back:
  assumes res: "gb_connection_enable env c h w = (ret, w')"
    and fail: "ret \<noteq> 0"
  shows "state (conns w c) = GB_CONNECTION_STATE_DISABLED
   \<and> state (conns w' c) = GB_CONNECTION_STATE_DISABLED
   \<and> (handler (conns w c) = None \<longrightarrow> handler (conns w' c) = None)
   \<and> (fst (gb_connection_hd_cport_enable env c w) = 0
        \<and> fst (gb_connection_svc_connection_create env c w) \<noteq> 0 \<longrightarrow>
        ret = fst (gb_connection_svc_connection_create env c w)
        \<and> w' = emit ([Lock (Connection_mutex c)] @ transport_enable_events env c w @
                [route_create_event c w, Dev_err ''failed to create svc connection''] @
                transport_disable_events env c w @ [Unlock (Connection_mutex c)]) w)
   \<and> (fst (gb_connection_hd_cport_enable env c w) = 0
        \<and> fst (gb_connection_svc_connection_create env c w) = 0 \<longrightarrow>
        ret = fst (gb_connection_control_connected env c w)
        \<and> w' = emit ([Lock (Connection_mutex c)] @ transport_enable_events env c w @
                [route_create_event c w, Lock (Connection_lock c), Set_handler c h,
                 Set_state c (if h \<noteq> None then GB_CONNECTION_STATE_ENABLED
                              else GB_CONNECTION_STATE_ENABLED_TX),
                 Unlock (Connection_lock c), notify_connected_event c w,
                 Dev_err ''failed to connect cport'', Lock (Connection_lock c),
                 Set_state c GB_CONNECTION_STATE_DISABLED] @
                cancel_trace c (- ESHUTDOWN) (operations (conns w c)) @
                [Set_handler c None, Unlock (Connection_lock c),
                 route_destroy_event c w] @
                transport_disable_events env c w @ [Unlock (Connection_mutex c)])
               (conn_update c
                  (\<lambda>x. x\<lparr>state := GB_CONNECTION_STATE_DISABLED, operations := [],
                         handler := None\<rparr>) w))"
proof -
  have dis: "state (conns w c) = GB_CONNECTION_STATE_DISABLED"
  proof (cases "state (conns w c)")
    case GB_CONNECTION_STATE_ENABLED
    from enable_enabled [OF this, of env h] res fail show ?thesis by simp
  next
    case GB_CONNECTION_STATE_ENABLED_TX
    from enable_enabled_tx [OF this, of env h] res fail show ?thesis
      by (simp split: if_splits)
  qed
  show ?thesis
  proof (cases "fst (gb_connection_hd_cport_enable env c w) = 0")
    case False
    from enable_transport_fails [OF dis False, of h] res
    show ?thesis
      using False dis by auto
  next
    case tr: True
    show ?thesis
    proof (cases "fst (gb_connection_svc_connection_create env c w) = 0")
      case False
      from enable_svc_fails [OF dis tr False, of h] res
      show ?thesis
        using False dis by auto
    next
      case True
      have ctl: "fst (gb_connection_control_connected env c w) \<noteq> 0"
      proof
        assume "fst (gb_connection_control_connected env c w) = 0"
        from enable_succeeds [OF dis tr True this, of h] res fail
        show False by simp
      qed
      from enable_notify_fails [OF dis tr True ctl, of h] res
      show ?thesis
        using True dis by auto
    qed
  qed
qed

theorem enable_failure_rolls_back_witness:
  "state (conns ex_world_disabled 2) = GB_CONNECTION_STATE_DISABLED
   \<and> handler (conns ex_world_disabled 2) = None
   \<and> fst (gb_connection_hd_cport_enable ex_env_svc_fails 2 ex_world_disabled) = 0
   \<and> fst (gb_connection_enable ex_env_svc_fails 2 (Some 7) ex_world_disabled) = - 5
   \<and> state (conns (snd (gb_connection_enable ex_env_svc_fails 2 (Some 7) ex_world_disabled)) 2)
       = GB_CONNECTION_STATE_DISABLED
   \<and> handler (conns (snd (gb_connection_enable ex_env_svc_fails 2 (Some 7) ex_world_disabled)) 2)
       = None
   \<and> trace (snd (gb_connection_enable ex_env_svc_fails 2 (Some 7) ex_world_disabled)) =
       [Lock (Connection_mutex 2), Cport_enable 5, Svc_connection_create 0 5 1 3 False,
        Dev_err ''failed to create svc connection'', Cport_disable 5,
        Unlock (Connection_mutex 2)]
   \<and> fst (gb_connection_hd_cport_enable ex_env_notify_fails 2 ex_world_disabled) = 0
   \<and> fst (gb_connection_enable ex_env_notify_fails 2 (Some 7) ex_world_disabled) = - 110
   \<and> state (conns (snd (gb_connection_enable ex_env_notify_fails 2 (Some 7) ex_world_disabled)) 2)
       = GB_CONNECTION_STATE_DISABLED
   \<and> handler (conns (snd (gb_connection_enable ex_env_notify_fails 2 (Some 7) ex_world_disabled)) 2)
       = None
   \<and> trace (snd (gb_connection_enable ex_env_notify_fails 2 (Some 7) ex_world_disabled)) =
       [Lock (Connection_mutex 2), Cport_enable 5, Svc_connection_create 0 5 1 3 False,
        Lock (Connection_lock 2), Set_handler 2 (Some 7),
        Set_state 2 GB_CONNECTION_STATE_ENABLED, Unlock (Connection_lock 2),
        Control_connected 1 3, Dev_err ''failed to connect cport'',
        Lock (Connection_lock 2), Set_state 2 GB_CONNECTION_STATE_DISABLED,
        Set_handler 2 None, Unlock (Connection_lock 2),
        Svc_connection_destroy 0 5 1 3, Cport_disable 5, Unlock (Connection_mutex 2)]"
proof -
  let ?w = ex_world_disabled
  have c2: "conns ?w 2 =
      ex_connection\<lparr>state := GB_CONNECTION_STATE_DISABLED, handler := None, operations := []\<rparr>"
    by (simp add: ex_world_disabled_def ex_world_def)
  have st: "intfs ?w = (\<lambda>_. ex_interface)" "ap_intf_id ?w = 0" "trace ?w = []"
    by (simp_all add: ex_world_disabled_def ex_world_def conn_update_def)
  have h1: "state (conns ?w 2) = GB_CONNECTION_STATE_DISABLED"
    and h2: "handler (conns ?w 2) = None"
    by (simp_all add: c2)
  have t1: "fst (gb_connection_hd_cport_enable ex_env_svc_fails 2 ?w) = 0"
    and t2: "fst (gb_connection_hd_cport_enable ex_env_notify_fails 2 ?w) = 0"
    by (simp_all add: gb_connection_hd_cport_enable_def ex_env_svc_fails_def
        ex_env_notify_fails_def ex_env_def Let_def)
  have s1: "fst (gb_connection_svc_connection_create ex_env_svc_fails 2 ?w) = - 5"
    and s2: "fst (gb_connection_svc_connection_create ex_env_notify_fails 2 ?w) = 0"
    and n2: "fst (gb_connection_control_connected ex_env_notify_fails 2 ?w) = - 110"
    by (simp_all add: gb_connection_svc_connection_create_def
        gb_connection_control_connected_def gb_connection_is_static_def c2 st
        ex_connection_def ex_interface_def ex_env_svc_fails_def ex_env_notify_fails_def
        ex_env_def Let_def)
  have r1: "fst (gb_connection_enable ex_env_svc_fails 2 (Some 7) ?w) = - 5"
    by (simp add: enable_svc_fails [OF h1 t1] s1)
  have r2: "fst (gb_connection_enable ex_env_notify_fails 2 (Some 7) ?w) = - 110"
    by (simp add: enable_notify_fails [OF h1 t2 s2] n2)
  have ev: "transport_enable_events ex_env_svc_fails 2 ?w = [Cport_enable 5]"
    "transport_enable_events ex_env_notify_fails 2 ?w = [Cport_enable 5]"
    "transport_disable_events ex_env_svc_fails 2 ?w = [Cport_disable 5]"
    "transport_disable_events ex_env_notify_fails 2 ?w = [Cport_disable 5]"
    "route_create_event 2 ?w = Svc_connection_create 0 5 1 3 False"
    "route_destroy_event 2 ?w = Svc_connection_destroy 0 5 1 3"
    "notify_connected_event 2 ?w = Control_connected 1 3"
    by (simp_all add: transport_enable_events_def transport_disable_events_def
        route_create_event_def route_destroy_event_def notify_connected_event_def c2 st
        ex_connection_def ex_interface_def ex_env_svc_fails_def ex_env_notify_fails_def
        ex_env_def)
  have ct: "cancel_trace 2 (- ESHUTDOWN) (operations (conns ?w 2)) = []"
    by (subst cancel_trace.simps) (simp add: c2)
  have f1: "fst (gb_connection_enable ex_env_svc_fails 2 (Some 7) ?w) \<noteq> 0"
    and f2: "fst (gb_connection_enable ex_env_notify_fails 2 (Some 7) ?w) \<noteq> 0"
    by (simp_all add: r1 r2)
  from enable_failure_rolls_back [OF prod.collapse [symmetric] f1]
  have a: "state (conns (snd (gb_connection_enable ex_env_svc_fails 2 (Some 7) ?w)) 2)
       = GB_CONNECTION_STATE_DISABLED
     \<and> handler (conns (snd (gb_connection_enable ex_env_svc_fails 2 (Some 7) ?w)) 2) = None
     \<and> trace (snd (gb_connection_enable ex_env_svc_fails 2 (Some 7) ?w)) =
       [Lock (Connection_mutex 2), Cport_enable 5, Svc_connection_create 0 5 1 3 False,
        Dev_err ''failed to create svc connection'', Cport_disable 5,
        Unlock (Connection_mutex 2)]"
    by (simp add: s1 t1 ev st h1 h2)
  from enable_failure_rolls_back [OF prod.collapse [symmetric] f2]
  have b: "state (conns (snd (gb_connection_enable ex_env_notify_fails 2 (Some 7) ?w)) 2)
       = GB_CONNECTION_STATE_DISABLED
     \<and> handler (conns (snd (gb_connection_enable ex_env_notify_fails 2 (Some 7) ?w)) 2) = None
     \<and> trace (snd (gb_connection_enable ex_env_notify_fails 2 (Some 7) ?w)) =
       [Lock (Connection_mutex 2), Cport_enable 5, Svc_connection_create 0 5 1 3 False,
        Lock (Connection_lock 2), Set_handler 2 (Some 7),
        Set_state 2 GB_CONNECTION_STATE_ENABLED, Unlock (Connection_lock 2),
        Control_connected 1 3, Dev_err ''failed to connect cport'',
        Lock (Connection_lock 2), Set_state 2 GB_CONNECTION_STATE_DISABLED,
        Set_handler 2 None, Unlock (Connection_lock 2),
        Svc_connection_destroy 0 5 1 3, Cport_disable 5, Unlock (Connection_mutex 2)]"
    by (simp add: s2 t2 ev st ct h1 h2)
  show ?thesis
    using h1 h2 t1 t2 r1 r2 a b by simp
qed

section \<open>Static connections and control connections\<close>

lemma filter_cancel_trace:
  assumes "\<And>operation. filter P (cancel_step c errno operation) = []"
  shows "filter P (cancel_trace c errno ops) = []"
proof (induction "length ops" arbitrary: ops rule: less_induct)
  case less
  show ?case
  proof (cases "ops = []")
    case True
    then show ?thesis by (subst cancel_trace.simps) simp
  next
    case False
    then have "length (remove1 (last ops) ops) < length ops"
      by (simp add: length_remove1)
    from less [OF this] assms False show ?thesis
      by (subst cancel_trace.simps) simp
  qed
qed

lemma static_returns:
  "gb_connection_is_static c w \<Longrightarrow>
     fst (gb_connection_svc_connection_create env c w) = 0
     \<and> fst (gb_connection_control_connected env c w) = 0"
  by (simp add: gb_connection_svc_connection_create_def gb_connection_control_connected_def)

lemma own_control_returns:
  "is_own_control c w \<Longrightarrow>
     \<not> gb_connection_is_static c w \<and> fst (gb_connection_control_connected env c w) = 0"
  by (auto simp: is_own_control_def gb_connection_is_static_def
      gb_connection_control_connected_def Let_def split: option.splits)

lemma filter_svc_events [simp]:
  "filter is_svc_event (transport_enable_events env c w) = []"
  "filter is_svc_event (transport_disable_events env c w) = []"
  "filter is_svc_event (notify_disconnected_events env c w) = []"
  "filter is_svc_event (cancel_trace c errno ops) = []"
  "is_svc_event (route_create_event c w)"
  "is_svc_event (route_destroy_event c w)"
  "\<not> is_svc_event (notify_connected_event c w)"
  by (simp_all add: transport_enable_events_def transport_disable_events_def
      notify_disconnected_events_def route_create_event_def route_destroy_event_def
      notify_connected_event_def filter_cancel_trace cancel_step_def split: option.splits)

lemma filter_control_events [simp]:
  "filter is_control_event (transport_enable_events env c w) = []"
  "filter is_control_event (transport_disable_events env c w) = []"
  "filter is_control_event (route_destroy_events c w) = []"
  "filter is_control_event (cancel_trace c errno ops) = []"
  "\<not> is_control_event (route_create_event c w)"
  "\<not> is_control_event (route_destroy_event c w)"
  "is_control_event (notify_connected_event c w)"
  by (simp_all add: transport_enable_events_def transport_disable_events_def
      route_destroy_events_def route_create_event_def route_destroy_event_def
      notify_connected_event_def filter_cancel_trace cancel_step_def split: option.splits)

lemma enable_static_events:
  assumes "gb_connection_is_static c w"
  shows "filter is_svc_event (trace (snd (gb_connection_enable env c h w))) =
      filter is_svc_event (trace w)
    \<and> filter is_control_event (trace (snd (gb_connection_enable env c h w))) =
      filter is_control_event (trace w)"
proof (cases "state (conns w c)")
  case GB_CONNECTION_STATE_ENABLED
  then show ?thesis by (simp add: enable_enabled)
next
  case GB_CONNECTION_STATE_ENABLED_TX
  then show ?thesis by (simp add: enable_enabled_tx)
next
  case GB_CONNECTION_STATE_DISABLED
  show ?thesis
  proof (cases "fst (gb_connection_hd_cport_enable env c w) = 0")
    case False
    from enable_transport_fails [OF GB_CONNECTION_STATE_DISABLED False]
    show ?thesis by simp
  next
    case True
    from static_returns [OF assms]
    have "fst (gb_connection_svc_connection_create env c w) = 0"
      and "fst (gb_connection_control_connected env c w) = 0"
      by simp_all
    from enable_succeeds [OF GB_CONNECTION_STATE_DISABLED True this] assms
    show ?thesis by simp
  qed
qed

lemma enable_own_control_events:
  assumes "is_own_control c w"
  shows "filter is_control_event (trace (snd (gb_connection_enable env c h w))) =
      filter is_control_event (trace w)"
    and "state (conns w c) = GB_CONNECTION_STATE_DISABLED \<Longrightarrow>
      fst (gb_connection_hd_cport_enable env c w) = 0 \<Longrightarrow>
      filter is_svc_event (trace (snd (gb_connection_enable env c h w))) =
        filter is_svc_event (trace w) @ [route_create_event c w]"
proof -
  from own_control_returns [OF assms]
  have ns: "\<not> gb_connection_is_static c w"
    and ctl: "fst (gb_connection_control_connected env c w) = 0"
    by simp_all
  have both: "filter is_control_event (trace (snd (gb_connection_enable env c h w))) =
        filter is_control_event (trace w)
      \<and> (state (conns w c) = GB_CONNECTION_STATE_DISABLED \<longrightarrow>
          fst (gb_connection_hd_cport_enable env c w) = 0 \<longrightarrow>
          filter is_svc_event (trace (snd (gb_connection_enable env c h w))) =
            filter is_svc_event (trace w) @ [route_create_event c w])"
  proof (cases "state (conns w c)")
    case GB_CONNECTION_STATE_ENABLED
    then show ?thesis by (simp add: enable_enabled)
  next
    case GB_CONNECTION_STATE_ENABLED_TX
    then show ?thesis by (simp add: enable_enabled_tx)
  next
    case GB_CONNECTION_STATE_DISABLED
    show ?thesis
    proof (cases "fst (gb_connection_hd_cport_enable env c w) = 0")
      case False
      from enable_transport_fails [OF GB_CONNECTION_STATE_DISABLED False] False
      show ?thesis by simp
    next
      case True
      show ?thesis
      proof (cases "fst (gb_connection_svc_connection_create env c w) = 0")
        case False
        from enable_svc_fails [OF GB_CONNECTION_STATE_DISABLED True False]
        show ?thesis by simp
      next
        case svc: True
        from enable_succeeds [OF GB_CONNECTION_STATE_DISABLED True svc ctl] ns assms
        show ?thesis by simp
      qed
    qed
  qed
  from both show "filter is_control_event (trace (snd (gb_connection_enable env c h w))) =
      filter is_control_event (trace w)"
    by simp
  from both show "state (conns w c) = GB_CONNECTION_STATE_DISABLED \<Longrightarrow>
      fst (gb_connection_hd_cport_enable env c w) = 0 \<Longrightarrow>
      filter is_svc_event (trace (snd (gb_connection_enable env c h w))) =
        filter is_svc_event (trace w) @ [route_create_event c w]"
    by simp
qed

lemma disable_events:
  "filter is_svc_event (trace (gb_connection_disable env c w)) =
     filter is_svc_event (trace w) @
     (if state (conns w c) = GB_CONNECTION_STATE_DISABLED then []
      else filter is_svc_event (route_destroy_events c w))"
  "filter is_control_event (trace (gb_connection_disable env c w)) =
     filter is_control_event (trace w) @
     (if state (conns w c) = GB_CONNECTION_STATE_DISABLED then []
      else filter is_control_event (notify_disconnected_events env c w))"
proof -
  have "filter is_svc_event (trace (gb_connection_disable env c w)) =
     filter is_svc_event (trace w) @
     (if state (conns w c) = GB_CONNECTION_STATE_DISABLED then []
      else filter is_svc_event (route_destroy_events c w))
    \<and> filter is_control_event (trace (gb_connection_disable env c w)) =
     filter is_control_event (trace w) @
     (if state (conns w c) = GB_CONNECTION_STATE_DISABLED then []
      else filter is_control_event (notify_disconnected_events env c w))"
  proof (cases "state (conns w c) = GB_CONNECTION_STATE_DISABLED")
    case True
    then show ?thesis
      by (simp add: gb_connection_disable_def Let_def)
  next
    case False
    then show ?thesis
      by (simp add: disable_eq [OF False])
  qed
  then show "filter is_svc_event (trace (gb_connection_disable env c w)) =
     filter is_svc_event (trace w) @
     (if state (conns w c) = GB_CONNECTION_STATE_DISABLED then []
      else filter is_svc_event (route_destroy_events c w))"
    and "filter is_control_event (trace (gb_connection_disable env c w)) =
     filter is_control_event (trace w) @
     (if state (conns w c) = GB_CONNECTION_STATE_DISABLED then []
      else filter is_control_event (notify_disconnected_events env c w))"
    by simp_all
qed

text \<open>
  C8.  For a static connection neither enable nor disable emits an SVC request or a
  control notification.  For a connection that is its interface's own control connection
  neither emits a control notification, while the SVC requests are still made: enable
  from Disabled, once the transport channel is enabled, asks the SVC to create the route,
  and disable from any state but Disabled asks the SVC to destroy it.
\<close>

theorem static_and_control_skips:
  "(gb_connection_is_static c w \<longrightarrow>
      filter is_svc_event (trace (snd (gb_connection_enable env c h w))) =
        filter is_svc_event (trace w)
    \<and> filter is_control_event (trace (snd (gb_connection_enable env c h w))) =
        filter is_control_event (trace w)
    \<and> filter is_svc_event (trace (gb_connection_disable env c w)) =
        filter is_svc_event (trace w)
    \<and> filter is_control_event (trace (gb_connection_disable env c w)) =
        filter is_control_event (trace w))
   \<and> (is_own_control c w \<longrightarrow>
      filter is_control_event (trace (snd (gb_connection_enable env c h w))) =
        filter is_control_event (trace w)
    \<and> filter is_control_event (trace (gb_connection_disable env c w)) =
        filter is_control_event (trace w)
    \<and> (state (conns w c) = GB_CONNECTION_STATE_DISABLED
        \<and> fst (gb_connection_hd_cport_enable env c w) = 0 \<longrightarrow>
        filter is_svc_event (trace (snd (gb_connection_enable env c h w))) =
          filter is_svc_event (trace w) @ [route_create_event c w])
    \<and> (state (conns w c) \<noteq> GB_CONNECTION_STATE_DISABLED \<longrightarrow>
        filter is_svc_event (trace (gb_connection_disable env c w)) =
          filter is_svc_event (trace w) @ [route_destroy_event c w]))"
proof -
  have s: "gb_connection_is_static c w \<Longrightarrow>
      filter is_svc_event (route_destroy_events c w) = []
      \<and> filter is_control_event (notify_disconnected_events env c w) = []"
    by (simp add: route_destroy_events_def notify_disconnected_events_def)
  have o: "is_own_control c w \<Longrightarrow>
      filter is_svc_event (route_destroy_events c w) = [route_destroy_event c w]
      \<and> filter is_control_event (notify_disconnected_events env c w) = []"
    using own_control_returns [of c w env]
    by (simp add: route_destroy_events_def notify_disconnected_events_def)
  show ?thesis
    using enable_static_events [of c w env h] enable_own_control_events [of c w env h] s o
    by (simp add: disable_events)
qed

theorem static_and_control_skips_witness:
  "gb_connection_is_static 2 ex_world_static_disabled
   \<and> filter is_svc_event
        (trace (snd (gb_connection_enable ex_env 2 (Some 7) ex_world_static_disabled))) = []
   \<and> filter is_control_event
        (trace (snd (gb_connection_enable ex_env 2 (Some 7) ex_world_static_disabled))) = []
   \<and> gb_connection_is_static 2 ex_world_static
   \<and> filter is_svc_event (trace (gb_connection_disable ex_env 2 ex_world_static)) = []
   \<and> filter is_control_event (trace (gb_connection_disable ex_env 2 ex_world_static)) = []
   \<and> is_own_control 2 ex_world_control_disabled
   \<and> state (conns ex_world_control_disabled 2) = GB_CONNECTION_STATE_DISABLED
   \<and> fst (gb_connection_hd_cport_enable ex_env 2 ex_world_control_disabled) = 0
   \<and> filter is_control_event
        (trace (snd (gb_connection_enable ex_env 2 (Some 7) ex_world_control_disabled))) = []
   \<and> filter is_svc_event
        (trace (snd (gb_connection_enable ex_env 2 (Some 7) ex_world_control_disabled))) =
        [Svc_connection_create 0 5 1 3 False]
   \<and> is_own_control 2 ex_world_control
   \<and> state (conns ex_world_control 2) \<noteq> GB_CONNECTION_STATE_DISABLED
   \<and> filter is_control_event (trace (gb_connection_disable ex_env 2 ex_world_control)) = []
   \<and> filter is_svc_event (trace (gb_connection_disable ex_env 2 ex_world_control)) =
        [Svc_connection_destroy 0 5 1 3]"
proof -
  have s1: "gb_connection_is_static 2 ex_world_static_disabled"
    and s2: "gb_connection_is_static 2 ex_world_static"
    by (simp_all add: gb_connection_is_static_def ex_world_static_disabled_def
        ex_world_static_def)
  have c1: "conns ex_world_control_disabled 2 =
      ex_connection\<lparr>state := GB_CONNECTION_STATE_DISABLED, handler := None, operations := []\<rparr>"
    and c2: "conns ex_world_control 2 = ex_connection"
    by (simp_all add: ex_world_control_disabled_def ex_world_control_def ex_world_def)
  have i: "intfs ex_world_control_disabled =
        (\<lambda>_. ex_interface\<lparr>control := \<lparr>connection = Some 2\<rparr>\<rparr>)"
      "intfs ex_world_control = (\<lambda>_. ex_interface\<lparr>control := \<lparr>connection = Some 2\<rparr>\<rparr>)"
      "ap_intf_id ex_world_control_disabled = 0" "ap_intf_id ex_world_control = 0"
    by (simp_all add: ex_world_control_disabled_def ex_world_control_def ex_world_def)
  have o1: "is_own_control 2 ex_world_control_disabled"
    and o2: "is_own_control 2 ex_world_control"
    by (simp_all add: is_own_control_def c1 c2 i ex_connection_def)
  have d1: "state (conns ex_world_control_disabled 2) = GB_CONNECTION_STATE_DISABLED"
    and d2: "state (conns ex_world_control 2) \<noteq> GB_CONNECTION_STATE_DISABLED"
    by (simp_all add: c1 c2 ex_connection_def)
  have t1: "fst (gb_connection_hd_cport_enable ex_env 2 ex_world_control_disabled) = 0"
    by (simp add: gb_connection_hd_cport_enable_def ex_env_def Let_def)
  have tr: "trace ex_world_static_disabled = []" "trace ex_world_static = []"
    "trace ex_world_control_disabled = []" "trace ex_world_control = []"
    by (simp_all add: ex_world_static_disabled_def ex_world_static_def
        ex_world_control_disabled_def ex_world_control_def ex_world_def)
  have ev: "route_create_event 2 ex_world_control_disabled =
        Svc_connection_create 0 5 1 3 False"
      "route_destroy_event 2 ex_world_control = Svc_connection_destroy 0 5 1 3"
    by (simp_all add: route_create_event_def route_destroy_event_def c1 c2 i
        ex_connection_def ex_interface_def)
  show ?thesis
    using s1 s2 o1 o2 d1 d2 t1
      static_and_control_skips [of 2 ex_world_static_disabled ex_env "Some 7"]
      static_and_control_skips [of 2 ex_world_static ex_env "Some 7"]
      static_and_control_skips [of 2 ex_world_control_disabled ex_env "Some 7"]
      static_and_control_skips [of 2 ex_world_control ex_env "Some 7"]
    by (simp add: tr ev)
qed

section \<open>The registry: create, destroy and dispatch\<close>

lemma world_fields_emit [simp]:
  "connections (emit es w) = connections w"
  "bundle_connections (emit es w) = bundle_connections w"
  "cport_id_map (emit es w) = cport_id_map w"
  "num_cports (emit es w) = num_cports w"
  by (simp_all add: emit_def)

lemma world_fields_conn_update [simp]:
  "connections (conn_update c f w) = connections w"
  "bundle_connections (conn_update c f w) = bundle_connections w"
  "cport_id_map (conn_update c f w) = cport_id_map w"
  "num_cports (conn_update c f w) = num_cports w"
  by (simp_all add: conn_update_def)

lemma intf_find_emit [simp]:
  "gb_connection_intf_find i cport_id (emit es w) = gb_connection_intf_find i cport_id w"
  by (simp add: gb_connection_intf_find_def)

lemma intf_find_None:
  "gb_connection_intf_find i cport_id w = None \<longleftrightarrow>
     \<not> (\<exists>p \<in> set (connections w).
          intf (conns w p) = Some i \<and> intf_cport_id (conns w p) = cport_id)"
  by (auto simp: gb_connection_intf_find_def find_None_iff)

lemma ex_world_fields:
  "conns ex_world 2 = ex_connection"
  "connections ex_world = [2]"
  "cport_id_map ex_world = [5]"
  "num_cports ex_world = 8"
  "trace ex_world = []"
  by (simp_all add: ex_world_def)

text \<open>
  C3.  When the registry already holds a connection of interface \<open>i\<close> with the
  remote identifier, \<open>gb_connection_create\<close> for that pair returns NULL, and the
  world is as before but for the trace, which gains one diagnostic (under the mutex,
  unless the requested local identifier was out of range): the set of identifiers handed
  out is unchanged and the allocator is never called.
\<close>

theorem create_rejects_duplicate:
  assumes "\<exists>p \<in> set (connections w).
      intf (conns w p) = Some i \<and> intf_cport_id (conns w p) = word_of_int cport_id"
  shows "gb_connection_create env hd_cport (Some i) b cport_id w =
      (None,
       if 0 \<le> hd_cport \<and> num_cports w \<le> hd_cport
       then emit [Dev_err ''cport not available''] w
       else emit [Lock Gb_connection_mutex, Dev_err ''cport already in use'',
                  Unlock Gb_connection_mutex] w)
    \<and> cport_id_map (snd (gb_connection_create env hd_cport (Some i) b cport_id w)) =
        cport_id_map w
    \<and> filter is_ida_event
        (trace (snd (gb_connection_create env hd_cport (Some i) b cport_id w))) =
        filter is_ida_event (trace w)"
proof -
  from assms have dup: "gb_connection_intf_find i (word_of_int cport_id) w \<noteq> None"
    by (simp add: intf_find_None)
  have eq: "gb_connection_create env hd_cport (Some i) b cport_id w =
      (None,
       if 0 \<le> hd_cport \<and> num_cports w \<le> hd_cport
       then emit [Dev_err ''cport not available''] w
       else emit [Lock Gb_connection_mutex, Dev_err ''cport already in use'',
                  Unlock Gb_connection_mutex] w)"
    using dup by (auto simp: gb_connection_create_def Let_def emit_emit)
  show ?thesis
    unfolding eq by simp
qed

theorem create_rejects_duplicate_witness:
  "connections ex_world = [2]
   \<and> intf (conns ex_world 2) = Some 1
   \<and> intf_cport_id (conns ex_world 2) = 3
   \<and> fst (gb_connection_create ex_env (- 1) (Some 1) (Some 1) 3 ex_world) = None
   \<and> trace (snd (gb_connection_create ex_env (- 1) (Some 1) (Some 1) 3 ex_world)) =
       [Lock Gb_connection_mutex, Dev_err ''cport already in use'',
        Unlock Gb_connection_mutex]
   \<and> cport_id_map (snd (gb_connection_create ex_env (- 1) (Some 1) (Some 1) 3 ex_world)) = [5]"
proof -
  have f: "intf (conns ex_world 2) = Some 1" "intf_cport_id (conns ex_world 2) = 3"
    by (simp_all add: ex_world_fields ex_connection_def)
  have h: "\<exists>p \<in> set (connections ex_world).
      intf (conns ex_world p) = Some 1 \<and> intf_cport_id (conns ex_world p) = word_of_int 3"
    by (simp add: ex_world_fields ex_connection_def)
  show ?thesis
    using f create_rejects_duplicate [OF h, of ex_env "- 1" "Some 1"]
    by (simp add: ex_world_fields)
qed

lemma ida_simple_get_cases:
  assumes "ida_simple_get ida_start ida_end w = (r, w1)"
  shows "(r = - ENOSPC \<and> w1 = w) \<or>
    (ida_start \<le> r \<and> r < ida_end \<and> r \<notin> set (cport_id_map w) \<and>
     w1 = emit [Ida_simple_get r] (w\<lparr>cport_id_map := r # cport_id_map w\<rparr>))"
proof (cases "find (\<lambda>i. i \<notin> set (cport_id_map w)) [ida_start .. ida_end - 1]")
  case None
  with assms show ?thesis
    by (simp add: ida_simple_get_def)
next
  case (Some x)
  then have "x \<in> set [ida_start .. ida_end - 1]" and "x \<notin> set (cport_id_map w)"
    by (auto simp: find_Some_iff)
  with Some assms show ?thesis
    by (auto simp: ida_simple_get_def)
qed

lemma world_fields_ida_simple_remove [simp]:
  "connections (ida_simple_remove r w) = connections w"
  "bundle_connections (ida_simple_remove r w) = bundle_connections w"
  "trace (ida_simple_remove r w) = trace w @ [Ida_simple_remove r]"
  "conns (ida_simple_remove r w) = conns w"
  "cport_id_map (ida_simple_remove r w) = removeAll r (cport_id_map w)"
  by (simp_all add: ida_simple_remove_def emit_def)

text \<open>What \<open>gb_connection_create\<close> does under the mutex, by cases.\<close>

lemma create_no_workqueue:
  assumes wq: "alloc_workqueue env = None"
  shows "fst (gb_connection_create env hd_cport i b cport_id w) = None
    \<and> connections (snd (gb_connection_create env hd_cport i b cport_id w)) = connections w
    \<and> bundle_connections (snd (gb_connection_create env hd_cport i b cport_id w)) =
        bundle_connections w
    \<and> cport_id_map (snd (gb_connection_create env hd_cport i b cport_id w)) =
        cport_id_map w"
proof (cases "if hd_cport < 0 then Some (0, num_cports w)
              else if hd_cport < num_cports w then Some (hd_cport, hd_cport + 1)
              else None")
  case None
  then show ?thesis
    by (simp add: gb_connection_create_def)
next
  case (Some range)
  obtain ida_start ida_end where range: "range = (ida_start, ida_end)"
    by (cases range)
  from Some range have st: "0 \<le> ida_start"
    by (auto split: if_splits)
  let ?w0 = "emit [Lock Gb_connection_mutex] w"
  obtain r w1 where ida: "ida_simple_get ida_start ida_end ?w0 = (r, w1)"
    by (cases "ida_simple_get ida_start ida_end ?w0")
  from ida_simple_get_cases [OF ida]
  show ?thesis
  proof
    assume "r = - ENOSPC \<and> w1 = ?w0"
    then show ?thesis
      using Some range ida
      by (simp add: gb_connection_create_def Let_def ENOSPC_def split: option.splits)
  next
    assume a: "ida_start \<le> r \<and> r < ida_end \<and> r \<notin> set (cport_id_map ?w0) \<and>
      w1 = emit [Ida_simple_get r] (?w0\<lparr>cport_id_map := r # cport_id_map ?w0\<rparr>)"
    then have r0: "\<not> r < 0" and fresh: "r \<notin> set (cport_id_map w)"
      using st by simp_all
    have w1: "w1 = emit [Ida_simple_get r] (?w0\<lparr>cport_id_map := r # cport_id_map ?w0\<rparr>)"
      using a by simp
    show ?thesis
      using Some range ida r0 wq
      by (simp add: gb_connection_create_def Let_def w1 fresh split: option.splits)
  qed
qed

lemma create_workqueue_fails_trace:
  assumes wq: "alloc_workqueue env = None"
    and kz: "kzalloc env = Some p"
    and range: "(if hd_cport < 0 then Some (0, num_cports w)
                 else if hd_cport < num_cports w then Some (hd_cport, hd_cport + 1)
                 else None) = Some (ida_start, ida_end)"
    and nodup: "case i of None \<Rightarrow> True
                | Some ip \<Rightarrow> gb_connection_intf_find ip (word_of_int cport_id) w = None"
    and ida: "fst (ida_simple_get ida_start ida_end w) = new_id"
    and ok: "0 \<le> new_id"
  shows "trace (snd (gb_connection_create env hd_cport i b cport_id w)) =
      trace w @
      [Lock Gb_connection_mutex, Ida_simple_get new_id, Kzalloc p, Kfree p,
       Ida_simple_remove new_id, Unlock Gb_connection_mutex]"
proof -
  let ?w0 = "emit [Lock Gb_connection_mutex] w"
  obtain r w1 where g: "ida_simple_get ida_start ida_end ?w0 = (r, w1)"
    by (cases "ida_simple_get ida_start ida_end ?w0")
  have "fst (ida_simple_get ida_start ida_end ?w0) = fst (ida_simple_get ida_start ida_end w)"
    by (simp add: ida_simple_get_def split: option.splits)
  with g ida have r: "r = new_id"
    by simp
  from ida_simple_get_cases [OF g] ok r
  have w1: "w1 = emit [Ida_simple_get new_id]
      (?w0\<lparr>cport_id_map := new_id # cport_id_map ?w0\<rparr>)"
    by (auto simp: ENOSPC_def)
  have nd: "\<not> (case i of None \<Rightarrow> False
             | Some ip \<Rightarrow> gb_connection_intf_find ip (word_of_int cport_id) ?w0 \<noteq> None)"
    using nodup by (simp split: option.splits)
  show ?thesis
    using range ok
    by (simp add: gb_connection_create_def Let_def nd g r w1 kz wq)
qed

text \<open>
  C4.  When the workqueue cannot be created, \<open>gb_connection_create\<close> returns NULL,
  both registry lists are as before and so is the set of identifiers handed out.  When
  the call gets as far as the workqueue (an identifier range, no duplicate, a free
  identifier \<open>new_id\<close>, an object \<open>p\<close>), it frees the object and then gives the
  identifier back, under the mutex.
\<close>

theorem create_workqueue_failure_rolls_back:
  assumes "alloc_workqueue env = None"
  shows "fst (gb_connection_create env hd_cport i b cport_id w) = None
    \<and> connections (snd (gb_connection_create env hd_cport i b cport_id w)) = connections w
    \<and> bundle_connections (snd (gb_connection_create env hd_cport i b cport_id w)) =
        bundle_connections w
    \<and> cport_id_map (snd (gb_connection_create env hd_cport i b cport_id w)) =
        cport_id_map w
    \<and> (kzalloc env = Some p
        \<and> (if hd_cport < 0 then Some (0, num_cports w)
            else if hd_cport < num_cports w then Some (hd_cport, hd_cport + 1)
            else None) = Some (ida_start, ida_end)
        \<and> (case i of None \<Rightarrow> True
            | Some ip \<Rightarrow> gb_connection_intf_find ip (word_of_int cport_id) w = None)
        \<and> fst (ida_simple_get ida_start ida_end w) = new_id \<and> 0 \<le> new_id \<longrightarrow>
        trace (snd (gb_connection_create env hd_cport i b cport_id w)) =
          trace w @
          [Lock Gb_connection_mutex, Ida_simple_get new_id, Kzalloc p, Kfree p,
           Ida_simple_remove new_id, Unlock Gb_connection_mutex])"
proof -
  have t: "kzalloc env = Some p
        \<and> (if hd_cport < 0 then Some (0, num_cports w)
            else if hd_cport < num_cports w then Some (hd_cport, hd_cport + 1)
            else None) = Some (ida_start, ida_end)
        \<and> (case i of None \<Rightarrow> True
            | Some ip \<Rightarrow> gb_connection_intf_find ip (word_of_int cport_id) w = None)
        \<and> fst (ida_simple_get ida_start ida_end w) = new_id \<and> 0 \<le> new_id \<longrightarrow>
        trace (snd (gb_connection_create env hd_cport i b cport_id w)) =
          trace w @
          [Lock Gb_connection_mutex, Ida_simple_get new_id, Kzalloc p, Kfree p,
           Ida_simple_remove new_id, Unlock Gb_connection_mutex]"
    using create_workqueue_fails_trace [OF assms] by blast
  from create_no_workqueue [OF assms, of hd_cport i b cport_id w] t
  show ?thesis
    by simp
qed

theorem create_workqueue_failure_rolls_back_witness:
  "alloc_workqueue ex_env_no_workqueue = None
   \<and> kzalloc ex_env_no_workqueue = Some 9
   \<and> gb_connection_intf_find 1 (word_of_int 4) ex_world = None
   \<and> fst (ida_simple_get 0 8 ex_world) = 0
   \<and> fst (gb_connection_create ex_env_no_workqueue (- 1) (Some 1) (Some 1) 4 ex_world) = None
   \<and> connections (snd (gb_connection_create ex_env_no_workqueue (- 1) (Some 1) (Some 1) 4
         ex_world)) = [2]
   \<and> bundle_connections (snd (gb_connection_create ex_env_no_workqueue (- 1) (Some 1) (Some 1) 4
         ex_world)) = bundle_connections ex_world
   \<and> cport_id_map (snd (gb_connection_create ex_env_no_workqueue (- 1) (Some 1) (Some 1) 4
         ex_world)) = [5]
   \<and> trace (snd (gb_connection_create ex_env_no_workqueue (- 1) (Some 1) (Some 1) 4
         ex_world)) =
       [Lock Gb_connection_mutex, Ida_simple_get 0, Kzalloc 9, Kfree 9,
        Ida_simple_remove 0, Unlock Gb_connection_mutex]"
proof -
  have wq: "alloc_workqueue ex_env_no_workqueue = None"
    and kz: "kzalloc ex_env_no_workqueue = Some 9"
    by (simp_all add: ex_env_no_workqueue_def ex_env_def)
  have nd: "gb_connection_intf_find 1 (word_of_int 4) ex_world = None"
    by (simp add: gb_connection_intf_find_def ex_world_fields ex_connection_def)
  have ida: "fst (ida_simple_get 0 8 ex_world) = 0"
    by (simp add: ida_simple_get_def ex_world_fields upto.simps)
  show ?thesis
    using wq kz nd ida
      create_workqueue_failure_rolls_back [OF wq, of "- 1" "Some 1" "Some 1" 4 ex_world 9 0 8 0]
    by (simp add: ex_world_fields)
qed

text \<open>
  C7.  When no connection of the host device has the local identifier,
  \<open>greybus_data_rcvd\<close> takes and gives back the registry lock and reports one
  diagnostic: nothing is handed to the operation layer and nothing else in the world
  changes.  When one is found, its reference count is raised under the registry lock,
  stays raised while the payload is handed to the operation layer, and is dropped
  afterwards.
\<close>

theorem data_rcvd_dispatch:
  "((\<forall>p \<in> set (connections w). hd_cport_id (conns w p) \<noteq> cport_id) \<longrightarrow>
      greybus_data_rcvd cport_id data w =
        emit [Lock Gb_connections_lock, Unlock Gb_connections_lock,
              Dev_err ''nonexistent connection''] w
      \<and> filter is_diagnostic (trace (greybus_data_rcvd cport_id data w)) =
          filter is_diagnostic (trace w) @ [Dev_err ''nonexistent connection''])
   \<and> (find (\<lambda>p. hd_cport_id (conns w p) = cport_id) (connections w) = Some c \<longrightarrow>
      trace (greybus_data_rcvd cport_id data w) =
        trace w @
        [Lock Gb_connections_lock, Kref_get c, Unlock Gb_connections_lock,
         Connection_recv c data, Kref_put c] @
        (if kref (conns w c) = 0 then [Kfree c] else [])
      \<and> kref (conns (snd (gb_connection_hd_find cport_id w)) c) = kref (conns w c) + 1
      \<and> kref (conns (greybus_data_rcvd cport_id data w) c) = kref (conns w c))"
proof -
  have miss: "find (\<lambda>p. hd_cport_id (conns w p) = cport_id) (connections w) = None"
    if "\<forall>p \<in> set (connections w). hd_cport_id (conns w p) \<noteq> cport_id"
    using that by (simp add: find_None_iff)
  have a: "greybus_data_rcvd cport_id data w =
        emit [Lock Gb_connections_lock, Unlock Gb_connections_lock,
              Dev_err ''nonexistent connection''] w"
    if "\<forall>p \<in> set (connections w). hd_cport_id (conns w p) \<noteq> cport_id"
    using miss [OF that]
    by (simp add: greybus_data_rcvd_def gb_connection_hd_find_def Let_def emit_emit)
  have b: "trace (greybus_data_rcvd cport_id data w) =
        trace w @
        [Lock Gb_connections_lock, Kref_get c, Unlock Gb_connections_lock,
         Connection_recv c data, Kref_put c] @
        (if kref (conns w c) = 0 then [Kfree c] else [])
      \<and> kref (conns (snd (gb_connection_hd_find cport_id w)) c) = kref (conns w c) + 1
      \<and> kref (conns (greybus_data_rcvd cport_id data w) c) = kref (conns w c)"
    if "find (\<lambda>p. hd_cport_id (conns w p) = cport_id) (connections w) = Some c"
    using that
    by (simp add: greybus_data_rcvd_def gb_connection_hd_find_def Let_def
        gb_connection_get_def gb_connection_put_def gb_connection_recv_def
        gb_connection_kref_release_def)
  show ?thesis
    using a b by simp
qed

theorem data_rcvd_dispatch_witness:
  "connections ex_world = [2]
   \<and> hd_cport_id (conns ex_world 2) = 5
   \<and> kref (conns ex_world 2) = 1
   \<and> trace (greybus_data_rcvd 6 [1, 2, 3] ex_world) =
       [Lock Gb_connections_lock, Unlock Gb_connections_lock,
        Dev_err ''nonexistent connection'']
   \<and> conns (greybus_data_rcvd 6 [1, 2, 3] ex_world) = conns ex_world
   \<and> trace (greybus_data_rcvd 5 [1, 2, 3] ex_world) =
       [Lock Gb_connections_lock, Kref_get 2, Unlock Gb_connections_lock,
        Connection_recv 2 [1, 2, 3], Kref_put 2]
   \<and> kref (conns (snd (gb_connection_hd_find 5 ex_world)) 2) = 2
   \<and> kref (conns (greybus_data_rcvd 5 [1, 2, 3] ex_world) 2) = 1"
proof -
  have f: "hd_cport_id (conns ex_world 2) = 5" "kref (conns ex_world 2) = 1"
    by (simp_all add: ex_world_fields ex_connection_def)
  have miss: "\<forall>p \<in> set (connections ex_world). hd_cport_id (conns ex_world p) \<noteq> 6"
    by (simp add: ex_world_fields ex_connection_def)
  have hit: "find (\<lambda>p. hd_cport_id (conns ex_world p) = 5) (connections ex_world) = Some 2"
    by (simp add: ex_world_fields ex_connection_def)
  show ?thesis
    using f miss hit
      data_rcvd_dispatch [of ex_world 6 "[1, 2, 3]" 2]
      data_rcvd_dispatch [of ex_world 5 "[1, 2, 3]" 2]
    by (simp add: ex_world_fields)
qed

text \<open>
  C10.  \<open>gb_connection_destroy\<close> of a NULL pointer returns the world as it is: no
  lock is taken, no list, identifier or reference count is touched.
\<close>

theorem destroy_null_is_noop:
  "gb_connection_destroy env None w = w"
  by (simp add: gb_connection_destroy_def)

section \<open>A Disabled connection has no handler\<close>

text \<open>
  A connection comes out of \<open>gb_connection_create\<close> Disabled, without a handler
  and without operations, and the three state-changing functions keep a Disabled
  connection without a handler.
\<close>

lemma ida_simple_get_connections:
  "ida_simple_get ida_start ida_end w = (r, w1) \<Longrightarrow> connections w1 = connections w"
  by (auto simp: ida_simple_get_def emit_def split: option.splits)

lemma create_new_connection:
  assumes "gb_connection_create env hd_cport i b cport_id w = (Some p, w')"
  shows "state (conns w' p) = GB_CONNECTION_STATE_DISABLED
    \<and> handler (conns w' p) = None
    \<and> operations (conns w' p) = []
    \<and> kref (conns w' p) = 1
    \<and> connections w' = p # connections w"
  using assms
  by (auto simp: gb_connection_create_def Let_def gb_connection_init_name_def
      zeroed_connection_def split: option.splits if_splits prod.splits
      dest: ida_simple_get_connections)

lemma enable_keeps_disabled_without_handler:
  assumes "state (conns w c) = GB_CONNECTION_STATE_DISABLED \<longrightarrow> handler (conns w c) = None"
  shows "state (conns (snd (gb_connection_enable env c h w)) c) = GB_CONNECTION_STATE_DISABLED
    \<longrightarrow> handler (conns (snd (gb_connection_enable env c h w)) c) = None"
proof (cases "state (conns w c)")
  case GB_CONNECTION_STATE_ENABLED
  then show ?thesis by (simp add: enable_enabled)
next
  case GB_CONNECTION_STATE_ENABLED_TX
  then show ?thesis by (simp add: enable_enabled_tx)
next
  case dis: GB_CONNECTION_STATE_DISABLED
  show ?thesis
  proof (cases "fst (gb_connection_hd_cport_enable env c w) = 0")
    case False
    from enable_transport_fails [OF dis False] assms dis show ?thesis by simp
  next
    case tr: True
    show ?thesis
    proof (cases "fst (gb_connection_svc_connection_create env c w) = 0")
      case False
      from enable_svc_fails [OF dis tr False] assms dis show ?thesis by simp
    next
      case svc: True
      show ?thesis
      proof (cases "fst (gb_connection_control_connected env c w) = 0")
        case False
        from enable_notify_fails [OF dis tr svc False] show ?thesis by simp
      next
        case True
        from enable_succeeds [OF dis tr svc True] show ?thesis by simp
      qed
    qed
  qed
qed

lemma disable_leaves_no_handler:
  "state (conns (gb_connection_disable env c w) c) = GB_CONNECTION_STATE_DISABLED
   \<and> (state (conns w c) \<noteq> GB_CONNECTION_STATE_DISABLED \<longrightarrow>
        handler (conns (gb_connection_disable env c w) c) = None)
   \<and> (state (conns w c) = GB_CONNECTION_STATE_DISABLED \<longrightarrow>
        handler (conns (gb_connection_disable env c w) c) = handler (conns w c))"
proof (cases "state (conns w c) = GB_CONNECTION_STATE_DISABLED")
  case True
  then show ?thesis by (simp add: gb_connection_disable_def Let_def)
next
  case False
  then show ?thesis by (simp add: disable_eq [OF False])
qed

lemma disable_rx_keeps_disabled_without_handler:
  assumes "state (conns w c) = GB_CONNECTION_STATE_DISABLED \<longrightarrow> handler (conns w c) = None"
  shows "state (conns (gb_connection_disable_rx c w) c) = GB_CONNECTION_STATE_DISABLED
    \<longrightarrow> handler (conns (gb_connection_disable_rx c w) c) = None"
  using assms
  by (simp add: gb_connection_disable_rx_def Let_def flush_incoming_operations_eq
      set_state_def set_handler_def)

end
